theory Spec2Isabelle
  imports Main "HOL-Library.Word"
begin

section \<open>Python values used by \<open>examples/mcp-agent/agent.py\<close>\<close>

text \<open>
  The agent works on Python \<open>str\<close>, \<open>bytes\<close>, \<open>dict\<close> and parsed JSON values.
  A \<open>str\<close> is a \<^typ>\<open>string\<close>, a \<open>bytes\<close> object a list of 8-bit words, and
  the result of \<open>json.loads\<close> a value of the datatype \<open>json\<close>: \<open>JObj\<close> is a Python
  \<open>dict\<close>, \<open>JArr\<close> a Python \<open>list\<close>. A float is kept as its 64-bit pattern.
\<close>

type_synonym bytes = "8 word list"

datatype json =
    JNull
  | JBool bool
  | JInt int
  | JFloat "64 word"
  | JStr string
  | JArr "json list"
  | JObj "(string \<times> json) list"

text \<open>\<open>isinstance(payload, dict)\<close> and \<open>isinstance(payload, list)\<close>.\<close>

fun isinstance_dict :: "json \<Rightarrow> bool" where
  "isinstance_dict (JObj kvs) = True"
| "isinstance_dict v = False"

fun isinstance_list :: "json \<Rightarrow> bool" where
  "isinstance_list (JArr vs) = True"
| "isinstance_list v = False"

text \<open>
  An exception is a value: \<open>FileNotFoundError\<close> is the one exception the source raises
  itself; every other exception comes out of a library or a tool server and is kept as
  its class name and message.
\<close>

datatype error =
    FileNotFoundError string
  | PyException string string

fun str_error :: "error \<Rightarrow> string" where
  "str_error (FileNotFoundError msg) = msg"
| "str_error (PyException cls msg) = msg"

subsection \<open>String operations\<close>

definition nl :: string where
  "nl = [CHR 0x0A]"

definition startswith :: "string \<Rightarrow> string \<Rightarrow> bool" where
  "startswith s p = (take (length p) s = p)"

definition endswith :: "string \<Rightarrow> string \<Rightarrow> bool" where
  "endswith s x = (length x \<le> length s \<and> drop (length s - length x) s = x)"

text \<open>\<open>sep.join(parts)\<close>.\<close>

fun join :: "string \<Rightarrow> string list \<Rightarrow> string" where
  "join sep [] = []"
| "join sep [x] = x"
| "join sep (x # y # ys) = x @ sep @ join sep (y # ys)"

text \<open>
  \<open>str.isspace\<close> on the code points below 256, and \<open>str.strip()\<close>, which removes
  leading and trailing whitespace.
\<close>

definition isspace :: "char \<Rightarrow> bool" where
  "isspace c = ((of_char c :: nat) \<in> {9, 10, 11, 12, 13, 28, 29, 30, 31, 32, 133, 160})"

definition strip :: "string \<Rightarrow> string" where
  "strip s = rev (dropWhile isspace (rev (dropWhile isspace s)))"

text \<open>\<open>str.lower()\<close> on ASCII letters.\<close>

definition lower_char :: "char \<Rightarrow> char" where
  "lower_char c =
     (case map_of (zip ''ABCDEFGHIJKLMNOPQRSTUVWXYZ'' ''abcdefghijklmnopqrstuvwxyz'') c of
        None \<Rightarrow> c
      | Some l \<Rightarrow> l)"

definition lower :: "string \<Rightarrow> string" where
  "lower s = map lower_char s"

text \<open>\<open>str(n)\<close> for an integer, as an f-string renders \<open>{n}\<close>.\<close>

function str_nat :: "nat \<Rightarrow> string" where
  "str_nat n =
     (if n < 10 then [''0123456789'' ! n]
      else str_nat (n div 10) @ [''0123456789'' ! (n mod 10)])"
  by pat_completeness auto
termination
  by (relation "measure id") auto

declare str_nat.simps [simp del]

definition str_int :: "int \<Rightarrow> string" where
  "str_int i = (if i < 0 then CHR ''-'' # str_nat (nat (- i)) else str_nat (nat i))"

section \<open>Attachments, tool results and the library interface\<close>

text \<open>
  The dictionary \<open>load_file\<close> returns, with its five keys. The key \<open>size\<close> is the
  field \<open>size_bytes\<close> here; \<open>data\<close> holds the base64 text of the file's content.
\<close>

record file_info =
  filename :: string
  mime_type :: string
  data :: string
  size_bytes :: int
  path :: string

text \<open>
  An MCP \<open>CallToolResult\<close> as \<open>format_tool_result\<close> reads it:
  \<open>getattr(result, "structuredContent", None)\<close>, \<open>getattr(result, "content", [])\<close> and,
  for each content item, \<open>getattr(item, "text", None)\<close>. An absent attribute and the
  value \<open>None\<close> are both \<^const>\<open>None\<close>.
\<close>

record content_item =
  item_text :: "string option"

record tool_result =
  structuredContent :: "json option"
  content :: "content_item list option"

text \<open>
  The functions of Python's standard library that the agent calls. They are parameters
  of the model: \<open>base64.b64encode(b).decode("utf-8")\<close>, \<open>base64.b64decode\<close>,
  \<open>bytes.decode("utf-8")\<close>, \<open>json.loads\<close>, \<open>json.dumps(v, indent=2)\<close>, \<open>str\<close> of a
  structured value and of a tool result, \<open>mimetypes.guess_type(p)[0]\<close>, \<open>Path(p).name\<close>
  and \<open>str(Path(p).absolute())\<close>. A call that raises returns \<^const>\<open>Inl\<close>.
\<close>

record pylib =
  b64encode :: "bytes \<Rightarrow> string"
  b64decode :: "string \<Rightarrow> error + bytes"
  decode_utf8 :: "bytes \<Rightarrow> error + string"
  json_loads :: "string \<Rightarrow> error + json"
  json_dumps :: "json \<Rightarrow> error + string"
  str_json :: "json \<Rightarrow> string"
  str_result :: "tool_result \<Rightarrow> string"
  guess_type :: "string \<Rightarrow> string option"
  path_name :: "string \<Rightarrow> string"
  path_absolute :: "string \<Rightarrow> string"

text \<open>
  The file system as \<open>load_file\<close> sees it: a path that does not exist is \<^const>\<open>None\<close>;
  a path that exists holds either the bytes that \<open>open(path, "rb").read()\<close> returns or
  the class name and message of the exception that it raises (a directory, a file
  without read permission).
\<close>

type_synonym filesystem = "string \<rightharpoonup> ((string \<times> string) + bytes)"

section \<open>Attachment Loader\<close>

definition load_file :: "pylib \<Rightarrow> filesystem \<Rightarrow> string \<Rightarrow> error + file_info" where
  "load_file py fs file_path =
     (case fs file_path of
        None \<Rightarrow> Inl (FileNotFoundError (''File not found: '' @ file_path))
      | Some node \<Rightarrow>
          (let mime = (case guess_type py file_path of
                         None \<Rightarrow> ''application/octet-stream''
                       | Some m \<Rightarrow> m)
           in case node of
                Inl (cls, msg) \<Rightarrow> Inl (PyException cls msg)
              | Inr file_content \<Rightarrow>
                  Inr \<lparr> filename = path_name py file_path,
                        mime_type = mime,
                        data = b64encode py file_content,
                        size_bytes = int (length file_content),
                        path = path_absolute py file_path \<rparr>))"

section \<open>Prompt Composer\<close>

text \<open>\<open>base64.b64decode(file_info["data"]).decode("utf-8")\<close>, with both exceptions.\<close>

definition decode_data :: "pylib \<Rightarrow> file_info \<Rightarrow> error + string" where
  "decode_data py file_info =
     (case b64decode py (data file_info) of
        Inl e \<Rightarrow> Inl e
      | Inr raw_bytes \<Rightarrow> decode_utf8 py raw_bytes)"

definition format_file_for_prompt :: "pylib \<Rightarrow> file_info \<Rightarrow> string" where
  "format_file_for_prompt py file_info =
     (if startswith (mime_type file_info) ''text/'' \<or> mime_type file_info = ''application/json''
      then (case decode_data py file_info of
              Inr file_content \<Rightarrow>
                nl @ ''--- File: '' @ filename file_info @ '' ---'' @ nl @ file_content @ nl
                  @ ''--- End of '' @ filename file_info @ '' ---'' @ nl
            | Inl e \<Rightarrow>
                nl @ ''[Attached file: '' @ filename file_info @ '' ('' @ mime_type file_info
                  @ '', '' @ str_int (size_bytes file_info) @ '' bytes)]'' @ nl)
      else nl @ ''[Attached file: '' @ filename file_info @ '' ('' @ mime_type file_info
             @ '', '' @ str_int (size_bytes file_info) @ '' bytes)]'' @ nl)"

definition build_prompt_with_files :: "pylib \<Rightarrow> string \<Rightarrow> file_info list \<Rightarrow> string" where
  "build_prompt_with_files py prompt files =
     (if files = [] then prompt
      else join nl (map (format_file_for_prompt py) files) @ nl @ prompt)"

section \<open>Payload Extractor\<close>

text \<open>
  The loop over the attachments; \<open>continue\<close> is the recursive call on the rest. The
  argument \<open>used_filenames\<close> is a set or \<open>None\<close>, and \<open>used_filenames and \<dots>\<close> is false
  for \<open>None\<close> and for the empty set.
\<close>

fun extract_json_payload ::
  "pylib \<Rightarrow> file_info list \<Rightarrow> string set option \<Rightarrow> (json \<times> string) option" where
  "extract_json_payload py [] used_filenames = None"
| "extract_json_payload py (file_info # rest) used_filenames =
     (if (case used_filenames of
            None \<Rightarrow> False
          | Some used \<Rightarrow> used \<noteq> {} \<and> filename file_info \<in> used)
      then extract_json_payload py rest used_filenames
      else if \<not> (mime_type file_info = ''application/json''
                  \<or> endswith (filename file_info) ''.json'')
      then extract_json_payload py rest used_filenames
      else (case decode_data py file_info of
              Inl e \<Rightarrow> extract_json_payload py rest used_filenames
            | Inr raw \<Rightarrow>
                (case json_loads py raw of
                   Inl e \<Rightarrow> extract_json_payload py rest used_filenames
                 | Inr payload \<Rightarrow> Some (payload, filename file_info))))"

section \<open>Schema Matcher\<close>

text \<open>
  A tool's input schema is a Python \<open>dict\<close>; \<open>schema.get("type")\<close> is the lookup of the
  key \<open>type\<close>, \<open>None\<close> when the key is absent.
\<close>

type_synonym schema = "string \<rightharpoonup> json"

definition payload_matches_schema :: "schema \<Rightarrow> json \<Rightarrow> bool" where
  "payload_matches_schema schema payload =
     (let expected_type = schema ''type'' in
      if expected_type = Some (JStr ''object'') then isinstance_dict payload
      else if expected_type = Some (JStr ''array'') then isinstance_list payload
      else True)"

section \<open>Result Formatter\<close>

text \<open>The loop over the content items, appending to \<open>text_parts\<close>.\<close>

fun append_texts :: "content_item list \<Rightarrow> string list \<Rightarrow> string list" where
  "append_texts [] text_parts = text_parts"
| "append_texts (item # items) text_parts =
     (case item_text item of
        None \<Rightarrow> append_texts items text_parts
      | Some t \<Rightarrow>
          if t \<noteq> [] then append_texts items (text_parts @ [t])
          else append_texts items text_parts)"

definition format_tool_result :: "pylib \<Rightarrow> tool_result \<Rightarrow> string" where
  "format_tool_result py result =
     (let text_parts0 =
            (case structuredContent result of
               None \<Rightarrow> []
             | Some structured \<Rightarrow>
                 (case json_dumps py structured of
                    Inr s \<Rightarrow> [s]
                  | Inl e \<Rightarrow> [str_json py structured]));
          items = (case content result of None \<Rightarrow> [] | Some its \<Rightarrow> its);
          text_parts = append_texts items text_parts0;
          output = strip (join nl text_parts)
      in if output \<noteq> [] then output else str_result py result)"

section \<open>Tool sessions\<close>

text \<open>
  The tool-server interface of the \<open>mcp_use\<close> client. A tool has a name and an optional
  \<open>inputSchema\<close>. A session answers \<open>list_tools()\<close> with a list of tools or an exception,
  and \<open>call_tool(name, arguments)\<close> with a result or an exception. The client holds the
  registry of active sessions, in the order of the dictionary, and the answer that
  \<open>create_all_sessions()\<close> will give: the sessions of all configured servers, or an
  exception. Every request sent through the client is recorded in \<open>requests\<close>.
\<close>

record tool =
  name :: string
  inputSchema :: "schema option"

record session =
  list_tools :: "error + tool list"
  call_tool :: "string \<Rightarrow> json \<Rightarrow> error + tool_result"

datatype request =
    CreateAllSessions
  | ListTools string
  | CallTool string string json

record client =
  active_sessions :: "(string \<times> session) list"
  configured :: "error + (string \<times> session) list"
  requests :: "request list"

definition get_all_active_sessions :: "client \<Rightarrow> (string \<times> session) list" where
  "get_all_active_sessions c = active_sessions c"

definition create_all_sessions :: "client \<Rightarrow> (error + (string \<times> session) list) \<times> client" where
  "create_all_sessions c =
     (case configured c of
        Inl e \<Rightarrow> (Inl e, c\<lparr> requests := requests c @ [CreateAllSessions] \<rparr>)
      | Inr created \<Rightarrow>
          (Inr created,
           c\<lparr> active_sessions := created, requests := requests c @ [CreateAllSessions] \<rparr>))"

section \<open>Session/Tool Enumerator and Auto-Invocation Orchestrator\<close>

text \<open>
  Lines 141 to 143 of \<open>maybe_auto_call_tool\<close>: the active sessions, or all sessions
  created when there is none.
\<close>

definition obtain_sessions :: "client \<Rightarrow> (error + (string \<times> session) list) \<times> client" where
  "obtain_sessions c =
     (let sessions = get_all_active_sessions c
      in if sessions = [] then create_all_sessions c else (Inr sessions, c))"

text \<open>
  Lines 145 to 152: the loop over \<open>sessions.items()\<close>. A session whose \<open>list_tools()\<close>
  raises is skipped by \<open>continue\<close>; the others append one triple per tool.
\<close>

fun collect_tools ::
  "(string \<times> session) list \<Rightarrow> (string \<times> session \<times> tool) list \<Rightarrow> request list
     \<Rightarrow> (string \<times> session \<times> tool) list \<times> request list" where
  "collect_tools [] tools reqs = (tools, reqs)"
| "collect_tools ((server_name, session) # rest) tools reqs =
     (case list_tools session of
        Inl e \<Rightarrow> collect_tools rest tools (reqs @ [ListTools server_name])
      | Inr session_tools \<Rightarrow>
          collect_tools rest
            (tools @ map (\<lambda>tool. (server_name, session, tool)) session_tools)
            (reqs @ [ListTools server_name]))"

text \<open>
  The state the orchestrator can touch: the client, the list of attachments, the set of
  used filenames (or \<open>None\<close>) and what was printed, one entry for each \<open>print\<close>.
\<close>

record state =
  client :: client
  files :: "file_info list"
  used_filenames :: "string set option"
  stdout :: "string list"

text \<open>
  Lines 157 to 166: the schema check, the call of the single tool and, after the call
  has returned, the \<open>print\<close>, the \<open>used_filenames.add(filename)\<close> and the formatting.
  An exception of \<open>call_tool\<close> leaves the function at line 162.
\<close>

definition record_request :: "request \<Rightarrow> client \<Rightarrow> client" where
  "record_request r c = c\<lparr> requests := requests c @ [r] \<rparr>"

fun call_single_tool ::
  "pylib \<Rightarrow> state \<Rightarrow> json \<Rightarrow> string \<Rightarrow> string \<times> session \<times> tool
     \<Rightarrow> (error + string option) \<times> state" where
  "call_single_tool py st payload fname (server_name, session, tool) =
     (let input_schema = (case inputSchema tool of None \<Rightarrow> Map.empty | Some s \<Rightarrow> s)
      in if \<not> payload_matches_schema input_schema payload then (Inr None, st)
         else
           (let st1 = st\<lparr> client :=
                        record_request (CallTool server_name (name tool) payload) (client st) \<rparr>
            in case call_tool session (name tool) payload of
                 Inl e \<Rightarrow> (Inl e, st1)
               | Inr result \<Rightarrow>
                   (Inr (Some (format_tool_result py result)),
                    st1\<lparr> stdout := stdout st @
                           [nl @ ''Auto: called '' @ server_name @ ''.'' @ name tool
                              @ '' with '' @ fname],
                         used_filenames :=
                           (case used_filenames st of
                              None \<Rightarrow> None
                            | Some used \<Rightarrow> Some (insert fname used)) \<rparr>)))"

definition maybe_auto_call_tool :: "pylib \<Rightarrow> state \<Rightarrow> (error + string option) \<times> state" where
  "maybe_auto_call_tool py st =
     (case extract_json_payload py (files st) (used_filenames st) of
        None \<Rightarrow> (Inr None, st)
      | Some (payload, fname) \<Rightarrow>
          (case obtain_sessions (client st) of
             (Inl e, c1) \<Rightarrow> (Inl e, st\<lparr> client := c1 \<rparr>)
           | (Inr sessions, c1) \<Rightarrow>
               (case collect_tools sessions [] (requests c1) of
                  (tools, reqs) \<Rightarrow>
                    (let st2 = st\<lparr> client := c1\<lparr> requests := reqs \<rparr> \<rparr>
                     in if length tools \<noteq> 1 then (Inr None, st2)
                        else call_single_tool py st2 payload fname (tools ! 0)))))"

section \<open>Interactive mode\<close>

text \<open>
  The reasoning agent is outside the repository: \<open>agent.run(prompt)\<close> returns its answer
  or raises, and may use the client. The module's globals \<open>attached_files\<close> and
  \<open>auto_pass_used\<close>, the client and the printed lines are the state of the loop.
\<close>

type_synonym agent = "client \<Rightarrow> string \<Rightarrow> (error + string) \<times> client"

record repl =
  attached_files :: "file_info list"
  auto_pass_used :: "string set"
  repl_client :: client
  repl_stdout :: "string list"

datatype control = Continue | Break | Raise error

definition print_lines :: "string list \<Rightarrow> repl \<Rightarrow> repl" where
  "print_lines ls r = r\<lparr> repl_stdout := repl_stdout r @ ls \<rparr>"

definition help_lines :: "string list" where
  "help_lines =
     [nl @ ''Commands:'',
      ''  /attach <file>  - Attach a file to the conversation'',
      ''  /files          - List attached files'',
      ''  /clear          - Clear attached files'',
      ''  /help           - Show this help'',
      ''  quit/exit       - Exit the agent'']"

definition file_summary :: "file_info \<Rightarrow> string" where
  "file_summary f =
     filename f @ '' ('' @ mime_type f @ '', '' @ str_int (size_bytes f) @ '' bytes)''"

text \<open>
  Lines 321 to 331: a free-text turn. The orchestrator is called as
  \<open>maybe_auto_call_tool(client, attached_files, auto_pass_used)\<close>: it receives the
  globals themselves, so what it leaves in them is written back.
\<close>

definition turn_state :: "repl \<Rightarrow> state" where
  "turn_state r =
     \<lparr> client = repl_client r, files = attached_files r,
       used_filenames = Some (auto_pass_used r), stdout = repl_stdout r \<rparr>"

definition free_text_turn :: "pylib \<Rightarrow> agent \<Rightarrow> string \<Rightarrow> repl \<Rightarrow> control \<times> repl" where
  "free_text_turn py agent user_input r =
     (case maybe_auto_call_tool py (turn_state r) of
        (res, st) \<Rightarrow>
          (let r1 = r\<lparr> attached_files := files st,
                        auto_pass_used :=
                          (case used_filenames st of
                             None \<Rightarrow> auto_pass_used r
                           | Some used \<Rightarrow> used),
                        repl_client := client st,
                        repl_stdout := stdout st \<rparr>
           in case res of
                Inl e \<Rightarrow> (Raise e, r1)
              | Inr (Some auto_result) \<Rightarrow> (Continue, print_lines [auto_result] r1)
              | Inr None \<Rightarrow>
                  (let full_prompt = build_prompt_with_files py user_input (attached_files r1)
                   in case agent (repl_client r1) full_prompt of
                        (Inl e, c) \<Rightarrow>
                          (Raise e, print_lines [nl @ ''Agent: ''] (r1\<lparr> repl_client := c \<rparr>))
                      | (Inr result, c) \<Rightarrow>
                          (Continue,
                           print_lines [nl @ ''Agent: '', result] (r1\<lparr> repl_client := c \<rparr>)))))"

text \<open>Lines 278 to 331: one iteration of the loop, on the line that \<open>input\<close> returned.\<close>

definition interactive_step ::
  "pylib \<Rightarrow> filesystem \<Rightarrow> agent \<Rightarrow> string \<Rightarrow> repl \<Rightarrow> control \<times> repl" where
  "interactive_step py fs agent line r =
     (let user_input = strip line
      in if user_input = [] then (Continue, r)
         else if lower user_input \<in> set [''quit'', ''exit'']
         then (Break, print_lines [''Goodbye!''] r)
         else if startswith user_input ''/attach ''
         then (case load_file py fs (strip (drop 8 user_input)) of
                 Inr file_info \<Rightarrow>
                   (Continue,
                    print_lines [''Attached: '' @ file_summary file_info]
                      (r\<lparr> attached_files := attached_files r @ [file_info] \<rparr>))
               | Inl e \<Rightarrow> (Continue, print_lines [''Error: '' @ str_error e] r))
         else if user_input = ''/files''
         then (if attached_files r \<noteq> []
               then (Continue,
                     print_lines
                       (''Attached files:'' #
                          map (\<lambda>(i, f). ''  '' @ str_nat i @ ''. '' @ file_summary f)
                            (enumerate 1 (attached_files r))) r)
               else (Continue, print_lines [''No files attached''] r))
         else if user_input = ''/clear''
         then (Continue, print_lines [''Cleared all attached files''] (r\<lparr> attached_files := [] \<rparr>))
         else if user_input = ''/help'' then (Continue, print_lines help_lines r)
         else free_text_turn py agent user_input r)"

text \<open>
  The loop on the lines typed by the user. At the end of the input \<open>input\<close> raises
  \<open>EOFError\<close>. The teardown of the sessions after the loop is not part of the model.
\<close>

fun interactive_mode ::
  "pylib \<Rightarrow> filesystem \<Rightarrow> agent \<Rightarrow> string list \<Rightarrow> repl \<Rightarrow> control \<times> repl" where
  "interactive_mode py fs agent [] r =
     (Raise (PyException ''EOFError'' ''EOF when reading a line''), r)"
| "interactive_mode py fs agent (line # rest) r =
     (case interactive_step py fs agent line r of
        (Continue, r') \<Rightarrow> interactive_mode py fs agent rest r'
      | (ctl, r') \<Rightarrow> (ctl, r'))"

section \<open>The specification's notions\<close>

text \<open>
  The words of the specification that the properties below are stated with. The set of
  used filenames that an optional argument stands for:
\<close>

definition used_set :: "string set option \<Rightarrow> string set" where
  "used_set u = (case u of None \<Rightarrow> {} | Some used \<Rightarrow> used)"

text \<open>
  An attachment is eligible when its filename is not used and it is JSON by mime type
  or by extension; its parsed payload is its content decoded as UTF-8 and parsed as
  JSON, when both succeed.
\<close>

definition eligible :: "string set \<Rightarrow> file_info \<Rightarrow> bool" where
  "eligible used f =
     (filename f \<notin> used \<and> (mime_type f = ''application/json'' \<or> endswith (filename f) ''.json''))"

definition parsed_payload :: "pylib \<Rightarrow> file_info \<Rightarrow> json option" where
  "parsed_payload py f =
     (case decode_data py f of
        Inl e \<Rightarrow> None
      | Inr raw \<Rightarrow> (case json_loads py raw of Inl e \<Rightarrow> None | Inr payload \<Rightarrow> Some payload))"

text \<open>The two renderings of an attachment in a prompt.\<close>

definition textual :: "file_info \<Rightarrow> bool" where
  "textual f = (startswith (mime_type f) ''text/'' \<or> mime_type f = ''application/json'')"

definition file_block :: "string \<Rightarrow> string \<Rightarrow> string" where
  "file_block fname file_content =
     ''--- File: '' @ fname @ '' ---'' @ nl @ file_content @ nl @ ''--- End of '' @ fname @ '' ---''"

definition metadata_line :: "string \<Rightarrow> string \<Rightarrow> int \<Rightarrow> string" where
  "metadata_line fname mime n =
     ''[Attached file: '' @ fname @ '' ('' @ mime @ '', '' @ str_int n @ '' bytes)]''"

text \<open>
  The tools one session contributes (none when its tool list fails), all tools
  discovered across the sessions, and their total number.
\<close>

definition session_tools :: "string \<times> session \<Rightarrow> (string \<times> session \<times> tool) list" where
  "session_tools ns =
     (case list_tools (snd ns) of
        Inl e \<Rightarrow> []
      | Inr ts \<Rightarrow> map (\<lambda>t. (fst ns, snd ns, t)) ts)"

definition discovered :: "(string \<times> session) list \<Rightarrow> (string \<times> session \<times> tool) list" where
  "discovered sessions = concat (map session_tools sessions)"

definition tool_count :: "(string \<times> session) list \<Rightarrow> nat" where
  "tool_count sessions =
     sum_list (map (\<lambda>ns. case list_tools (snd ns) of Inl e \<Rightarrow> 0 | Inr ts \<Rightarrow> length ts) sessions)"

text \<open>The texts of a result's content items that are present and not empty.\<close>

definition item_texts :: "content_item list \<Rightarrow> string list" where
  "item_texts items = filter (\<lambda>t. t \<noteq> []) (List.map_filter item_text items)"

section \<open>A sample environment\<close>

text \<open>
  The values of the library at the arguments of the examples: the file \<open>a.json\<close> holds
  \<open>{"x":1}\<close>, the file \<open>notes.txt\<close> holds \<open>hello\<close>, the file \<open>blob\<close> holds the single
  byte \<open>0xFF\<close>, and \<open>docs\<close> is a directory. The attachment \<open>broken.json\<close> is named as
  JSON and holds \<open>hello\<close>.
\<close>

definition x1_text :: string where
  \<open>x1_text = ''{"x":1}''\<close>

definition x1_bytes :: bytes where
  "x1_bytes = [0x7B, 0x22, 0x78, 0x22, 0x3A, 0x31, 0x7D]"

definition hello_bytes :: bytes where
  "hello_bytes = [0x68, 0x65, 0x6C, 0x6C, 0x6F]"

definition ok_text :: string where
  \<open>ok_text = ''{'' @ nl @ ''  "ok": true'' @ nl @ ''}''\<close>

definition py_sample :: pylib where
  "py_sample =
     \<lparr> b64encode = (\<lambda>b. if b = x1_bytes then ''eyJ4IjoxfQ==''
                         else if b = hello_bytes then ''aGVsbG8=''
                         else if b = [0xFF] then ''/w=='' else []),
       b64decode = (\<lambda>s. if s = ''eyJ4IjoxfQ=='' then Inr x1_bytes
                         else if s = ''aGVsbG8='' then Inr hello_bytes
                         else if s = ''/w=='' then Inr [0xFF]
                         else Inl (PyException ''binascii.Error'' ''Incorrect padding'')),
       decode_utf8 = (\<lambda>b. if b = x1_bytes then Inr x1_text
                           else if b = hello_bytes then Inr ''hello''
                           else Inl (PyException ''UnicodeDecodeError'' ''invalid start byte'')),
       json_loads = (\<lambda>s. if s = x1_text then Inr (JObj [(''x'', JInt 1)])
                          else Inl (PyException ''JSONDecodeError'' ''Expecting value'')),
       json_dumps = (\<lambda>v. if v = JObj [(''ok'', JBool True)] then Inr ok_text
                          else Inl (PyException ''TypeError'' ''not JSON serializable'')),
       str_json = (\<lambda>v. ''structured''),
       str_result = (\<lambda>r. ''CallToolResult''),
       guess_type = (\<lambda>p. if endswith p ''.json'' then Some ''application/json''
                          else if endswith p ''.txt'' then Some ''text/plain'' else None),
       path_name = (\<lambda>p. p),
       path_absolute = (\<lambda>p. ''/work/'' @ p) \<rparr>"

definition docs_error :: "string \<times> string" where
  "docs_error =
     (''IsADirectoryError'', ''[Errno 21] Is a directory: '' @ [CHR 0x27] @ ''docs'' @ [CHR 0x27])"

definition fs_sample :: filesystem where
  "fs_sample =
     [''a.json'' \<mapsto> Inr x1_bytes,
      ''notes.txt'' \<mapsto> Inr hello_bytes,
      ''blob'' \<mapsto> Inr [0xFF],
      ''docs'' \<mapsto> Inl docs_error]"

definition a_json :: file_info where
  "a_json = \<lparr> filename = ''a.json'', mime_type = ''application/json'', data = ''eyJ4IjoxfQ=='',
              size_bytes = 7, path = ''/work/a.json'' \<rparr>"

definition notes_txt :: file_info where
  "notes_txt = \<lparr> filename = ''notes.txt'', mime_type = ''text/plain'', data = ''aGVsbG8='',
                 size_bytes = 5, path = ''/work/notes.txt'' \<rparr>"

definition broken_json :: file_info where
  "broken_json = \<lparr> filename = ''broken.json'', mime_type = ''application/json'',
                   data = ''aGVsbG8='', size_bytes = 5, path = ''/work/broken.json'' \<rparr>"

definition blob :: file_info where
  "blob = \<lparr> filename = ''blob'', mime_type = ''application/octet-stream'',
            data = ''/w=='', size_bytes = 1, path = ''/work/blob'' \<rparr>"

definition tool_object :: tool where
  "tool_object = \<lparr> name = ''process'', inputSchema = Some [''type'' \<mapsto> JStr ''object''] \<rparr>"

definition tool_array :: tool where
  "tool_array = \<lparr> name = ''batch'', inputSchema = Some [''type'' \<mapsto> JStr ''array''] \<rparr>"

definition result_ok :: tool_result where
  "result_ok = \<lparr> structuredContent = Some (JObj [(''ok'', JBool True)]), content = Some [] \<rparr>"

definition result_hello :: tool_result where
  "result_hello =
     \<lparr> structuredContent = None, content = Some [\<lparr> item_text = Some ''hello'' \<rparr>] \<rparr>"

definition result_empty :: tool_result where
  "result_empty = \<lparr> structuredContent = None, content = None \<rparr>"

definition session_of :: "tool list \<Rightarrow> session" where
  "session_of ts = \<lparr> list_tools = Inr ts, call_tool = (\<lambda>n args. Inr result_ok) \<rparr>"

definition session_down :: session where
  "session_down =
     \<lparr> list_tools = Inl (PyException ''ConnectionError'' ''connection closed''),
       call_tool = (\<lambda>n args. Inl (PyException ''ConnectionError'' ''connection closed'')) \<rparr>"

definition session_failing :: session where
  "session_failing =
     \<lparr> list_tools = Inr [tool_object],
       call_tool = (\<lambda>n args. Inl (PyException ''McpError'' ''tool failed'')) \<rparr>"

definition client_of :: "(string \<times> session) list \<Rightarrow> client" where
  "client_of sessions = \<lparr> active_sessions = [], configured = Inr sessions, requests = [] \<rparr>"

definition state_of :: "(string \<times> session) list \<Rightarrow> file_info list \<Rightarrow> state" where
  "state_of sessions fs =
     \<lparr> client = client_of sessions, files = fs, used_filenames = Some {}, stdout = [] \<rparr>"

definition agent_sample :: agent where
  "agent_sample = (\<lambda>c prompt. (Inr ''answer'', c))"

definition repl_of :: "(string \<times> session) list \<Rightarrow> repl" where
  "repl_of sessions =
     \<lparr> attached_files = [], auto_pass_used = {}, repl_client = client_of sessions,
       repl_stdout = [] \<rparr>"

section \<open>Verified properties\<close>

subsection \<open>Schema Matcher\<close>

text \<open>
  Claim C4. \<open>payload_matches_schema\<close> returns true exactly when the declared type is
  \<open>"object"\<close> and the payload is a dictionary, or the declared type is \<open>"array"\<close> and the
  payload is a list, or the declared type is anything else, an absent one included. So
  an object schema rejects every list and an array schema rejects every dictionary.
\<close>

theorem payload_matches_schema_rule:
  "(payload_matches_schema schema payload \<longleftrightarrow>
      (schema ''type'' = Some (JStr ''object'') \<and> (\<exists>kvs. payload = JObj kvs))
    \<or> (schema ''type'' = Some (JStr ''array'') \<and> (\<exists>vs. payload = JArr vs))
    \<or> (schema ''type'' \<noteq> Some (JStr ''object'') \<and> schema ''type'' \<noteq> Some (JStr ''array'')))
   \<and> (schema ''type'' = Some (JStr ''object'') \<longrightarrow> \<not> payload_matches_schema schema (JArr vs'))
   \<and> (schema ''type'' = Some (JStr ''array'') \<longrightarrow> \<not> payload_matches_schema schema (JObj kvs'))"
  by (cases payload) (auto simp: payload_matches_schema_def Let_def)

theorem payload_matches_schema_rule_witness:
  "\<not> payload_matches_schema [''type'' \<mapsto> JStr ''object''] (JArr [JInt 1])
   \<and> \<not> payload_matches_schema [''type'' \<mapsto> JStr ''array''] (JObj [(''x'', JInt 1)])
   \<and> payload_matches_schema [''type'' \<mapsto> JStr ''object''] (JObj [(''x'', JInt 1)])
   \<and> payload_matches_schema [''type'' \<mapsto> JStr ''array''] (JArr [JInt 1])
   \<and> payload_matches_schema [''type'' \<mapsto> JStr ''string''] (JArr [JInt 1])
   \<and> payload_matches_schema Map.empty (JInt 1)"
  using payload_matches_schema_rule
          [of "[''type'' \<mapsto> JStr ''object'']" "JObj [(''x'', JInt 1)]" "[JInt 1]" "[]"]
        payload_matches_schema_rule
          [of "[''type'' \<mapsto> JStr ''array'']" "JArr [JInt 1]" "[]" "[(''x'', JInt 1)]"]
        payload_matches_schema_rule [of "[''type'' \<mapsto> JStr ''string'']" "JArr [JInt 1]" "[]" "[]"]
        payload_matches_schema_rule [of "Map.empty" "JInt 1" "[]" "[]"]
  by simp

subsection \<open>Payload Extractor\<close>

lemmas sample_defs =
  py_sample_def a_json_def notes_txt_def broken_json_def blob_def x1_text_def x1_bytes_def
  hello_bytes_def decode_data_def endswith_def startswith_def

text \<open>One step of the scan, in the specification's words.\<close>

lemma extract_json_payload_Cons:
  "extract_json_payload py (f # rest) u =
     (if eligible (used_set u) f
      then (case parsed_payload py f of
              None \<Rightarrow> extract_json_payload py rest u
            | Some payload \<Rightarrow> Some (payload, filename f))
      else extract_json_payload py rest u)"
  by (cases u) (auto simp: eligible_def used_set_def parsed_payload_def split: sum.splits)

lemma extract_json_payload_find:
  "extract_json_payload py fs u =
     map_option (\<lambda>f. (the (parsed_payload py f), filename f))
       (find (\<lambda>f. eligible (used_set u) f \<and> parsed_payload py f \<noteq> None) fs)"
proof (induction fs)
  case Nil
  show ?case by simp
next
  case (Cons f rest)
  show ?case
    unfolding extract_json_payload_Cons using Cons.IH
    by (auto split: option.splits)
qed

lemma extract_json_payload_unused:
  "extract_json_payload py fs u = Some (payload, n) \<Longrightarrow> n \<notin> used_set u"
proof (induction fs)
  case Nil
  then show ?case by simp
next
  case (Cons f rest)
  then show ?case
    unfolding extract_json_payload_Cons
    by (auto simp: eligible_def split: if_splits option.splits)
qed

text \<open>
  Claim C3. \<open>extract_json_payload\<close> returns the payload and filename of the first
  attachment, in attachment order, that is eligible (filename not in the used set, and
  JSON by mime type or by the extension \<open>.json\<close>) and whose content decodes and parses.
  An attachment that is not eligible or does not parse is skipped and the scan goes on
  with the later ones. The result is \<open>None\<close> for the empty list and exactly when no
  attachment qualifies, and a returned filename is never in the used set. The function
  is total: every exception of the decoding and parsing is a branch that continues.
\<close>

theorem extract_json_payload_first_eligible:
  "extract_json_payload py fs u =
     map_option (\<lambda>f. (the (parsed_payload py f), filename f))
       (find (\<lambda>f. eligible (used_set u) f \<and> parsed_payload py f \<noteq> None) fs)
   \<and> (\<not> (eligible (used_set u) f \<and> parsed_payload py f \<noteq> None) \<longrightarrow>
        extract_json_payload py (f # rest) u = extract_json_payload py rest u)
   \<and> (eligible (used_set u) f \<and> parsed_payload py f = Some payload \<longrightarrow>
        extract_json_payload py (f # rest) u = Some (payload, filename f))
   \<and> (extract_json_payload py fs u = Some (payload', n) \<longrightarrow>
        n \<notin> used_set u
        \<and> (\<exists>i < length fs. filename (fs ! i) = n \<and> eligible (used_set u) (fs ! i)
               \<and> parsed_payload py (fs ! i) = Some payload'
               \<and> (\<forall>j < i. \<not> (eligible (used_set u) (fs ! j)
                                 \<and> parsed_payload py (fs ! j) \<noteq> None))))
   \<and> (extract_json_payload py fs u = None \<longleftrightarrow>
        (\<forall>f' \<in> set fs. \<not> (eligible (used_set u) f' \<and> parsed_payload py f' \<noteq> None)))
   \<and> extract_json_payload py [] u = None"
proof (intro conjI impI)
  show "extract_json_payload py fs u =
     map_option (\<lambda>f. (the (parsed_payload py f), filename f))
       (find (\<lambda>f. eligible (used_set u) f \<and> parsed_payload py f \<noteq> None) fs)"
    by (rule extract_json_payload_find)
next
  assume "\<not> (eligible (used_set u) f \<and> parsed_payload py f \<noteq> None)"
  then show "extract_json_payload py (f # rest) u = extract_json_payload py rest u"
    unfolding extract_json_payload_Cons by (auto split: option.splits)
next
  assume "eligible (used_set u) f \<and> parsed_payload py f = Some payload"
  then show "extract_json_payload py (f # rest) u = Some (payload, filename f)"
    unfolding extract_json_payload_Cons by simp
next
  assume a: "extract_json_payload py fs u = Some (payload', n)"
  then show "n \<notin> used_set u" by (rule extract_json_payload_unused)
  from a obtain f' where
    "find (\<lambda>f. eligible (used_set u) f \<and> parsed_payload py f \<noteq> None) fs = Some f'"
    and "the (parsed_payload py f') = payload'" and "filename f' = n"
    unfolding extract_json_payload_find by auto
  then show "\<exists>i < length fs. filename (fs ! i) = n \<and> eligible (used_set u) (fs ! i)
               \<and> parsed_payload py (fs ! i) = Some payload'
               \<and> (\<forall>j < i. \<not> (eligible (used_set u) (fs ! j)
                                 \<and> parsed_payload py (fs ! j) \<noteq> None))"
    by (fastforce simp: find_Some_iff)
next
  show "extract_json_payload py fs u = None \<longleftrightarrow>
        (\<forall>f' \<in> set fs. \<not> (eligible (used_set u) f' \<and> parsed_payload py f' \<noteq> None))"
    unfolding extract_json_payload_find by (auto simp: find_None_iff)
next
  show "extract_json_payload py [] u = None" by simp
qed

theorem extract_json_payload_first_eligible_witness:
  "extract_json_payload py_sample [notes_txt, blob, broken_json, a_json] None
     = Some (JObj [(''x'', JInt 1)], ''a.json'')
   \<and> extract_json_payload py_sample [a_json, notes_txt] (Some {''a.json''}) = None
   \<and> extract_json_payload py_sample [broken_json, a_json] (Some {''b.json''})
     = extract_json_payload py_sample [a_json] (Some {''b.json''})
   \<and> eligible (used_set None) a_json
   \<and> parsed_payload py_sample a_json = Some (JObj [(''x'', JInt 1)])
   \<and> parsed_payload py_sample broken_json = None
   \<and> ''a.json'' \<notin> used_set None"
  using extract_json_payload_first_eligible
          [where py = py_sample and fs = "[notes_txt, blob, broken_json, a_json]" and u = None
             and f = a_json and rest = "[]" and payload = "JObj [(''x'', JInt 1)]"
             and payload' = "JObj [(''x'', JInt 1)]" and n = "''a.json''"]
        extract_json_payload_first_eligible
          [where py = py_sample and fs = "[a_json, notes_txt]" and u = "Some {''a.json''}"
             and f = broken_json and rest = "[a_json]" and payload = "JNull"
             and payload' = "JNull" and n = "''a.json''"]
  by (simp add: sample_defs eligible_def used_set_def parsed_payload_def)

subsection \<open>Session/Tool Enumerator and Orchestrator\<close>

lemma collect_tools_eq:
  "collect_tools ss acc reqs =
     (acc @ discovered ss, reqs @ map (\<lambda>ns. ListTools (fst ns)) ss)"
proof (induction ss arbitrary: acc reqs)
  case Nil
  show ?case by (simp add: discovered_def)
next
  case (Cons ns rest)
  obtain server_name s where ns: "ns = (server_name, s)" by (cases ns)
  show ?case
    by (cases "list_tools s") (simp_all add: ns Cons.IH discovered_def session_tools_def)
qed

lemma length_discovered: "length (discovered ss) = tool_count ss"
proof (induction ss)
  case Nil
  show ?case by (simp add: discovered_def tool_count_def)
next
  case (Cons ns rest)
  then show ?case
    by (cases "list_tools (snd ns)")
       (simp_all add: discovered_def tool_count_def session_tools_def)
qed

lemma discovered_in_sessions:
  "(server_name, s, t) \<in> set (discovered ss) \<Longrightarrow>
     (server_name, s) \<in> set ss \<and> (\<exists>ts. list_tools s = Inr ts \<and> t \<in> set ts)"
proof -
  assume "(server_name, s, t) \<in> set (discovered ss)"
  then obtain ns where ns: "ns \<in> set ss" and t: "(server_name, s, t) \<in> set (session_tools ns)"
    by (auto simp: discovered_def)
  show ?thesis
  proof (cases "list_tools (snd ns)")
    case (Inl e)
    with t show ?thesis by (simp add: session_tools_def)
  next
    case (Inr ts)
    with t have "ns = (server_name, s)" and "t \<in> set ts"
      by (auto simp: session_tools_def)
    with ns Inr show ?thesis by auto
  qed
qed

lemma maybe_auto_call_tool_None:
  "extract_json_payload py (files st) (used_filenames st) = None \<Longrightarrow>
     maybe_auto_call_tool py st = (Inr None, st)"
  by (simp add: maybe_auto_call_tool_def)

lemma maybe_auto_call_tool_Inl:
  "extract_json_payload py (files st) (used_filenames st) = Some (payload, fname) \<Longrightarrow>
   obtain_sessions (client st) = (Inl e, c1) \<Longrightarrow>
     maybe_auto_call_tool py st = (Inl e, st\<lparr> client := c1 \<rparr>)"
  by (simp add: maybe_auto_call_tool_def)

lemma maybe_auto_call_tool_Some:
  "extract_json_payload py (files st) (used_filenames st) = Some (payload, fname) \<Longrightarrow>
   obtain_sessions (client st) = (Inr sessions, c1) \<Longrightarrow>
     maybe_auto_call_tool py st =
       (let st2 = st\<lparr> client :=
                    c1\<lparr> requests := requests c1 @ map (\<lambda>ns. ListTools (fst ns)) sessions \<rparr> \<rparr>
        in if tool_count sessions \<noteq> 1 then (Inr None, st2)
           else call_single_tool py st2 payload fname (discovered sessions ! 0))"
  by (simp add: maybe_auto_call_tool_def collect_tools_eq length_discovered Let_def)

lemma call_single_tool_frame:
  "call_single_tool py st payload fname triple = (res, st') \<Longrightarrow>
     files st' = files st \<and>
     active_sessions (client st') = active_sessions (client st) \<and>
     (res = Inr None \<longrightarrow> st' = st) \<and>
     (\<forall>e. res = Inl e \<longrightarrow> used_filenames st' = used_filenames st)"
  by (cases triple)
     (auto simp: Let_def record_request_def split: if_splits sum.splits)

lemma discovered_single:
  assumes "tool_count sessions = 1"
  obtains server_name s t where "discovered sessions = [(server_name, s, t)]"
proof -
  from assms have "length (discovered sessions) = 1" by (simp add: length_discovered)
  then obtain x where "discovered sessions = [x]"
    by (cases "discovered sessions") auto
  then show ?thesis using that by (cases x) auto
qed

text \<open>
  Claim C1. Once the sessions are obtained, \<open>maybe_auto_call_tool\<close> returns \<open>None\<close>
  whenever the total number of tools over all sessions is not exactly one, whatever
  the attachments hold. The number is the sum over the servers: when it is one, with
  any number of servers that list no tool or whose listing fails, and a payload was
  extracted, the single tool is the one the schema check and the call are made on.
\<close>

theorem abstains_unless_exactly_one_tool:
  assumes "obtain_sessions (client st) = (Inr sessions, c1)"
  shows "(tool_count sessions \<noteq> 1 \<longrightarrow> fst (maybe_auto_call_tool py st) = Inr None)
       \<and> (tool_count sessions = 1
            \<and> extract_json_payload py (files st) (used_filenames st) = Some (payload, fname) \<longrightarrow>
          (\<exists>server_name s t.
              discovered sessions = [(server_name, s, t)]
            \<and> (server_name, s) \<in> set sessions
            \<and> fst (maybe_auto_call_tool py st) =
                (if payload_matches_schema
                      (case inputSchema t of None \<Rightarrow> Map.empty | Some sch \<Rightarrow> sch) payload
                 then (case call_tool s (name t) payload of
                         Inl e \<Rightarrow> Inl e
                       | Inr result \<Rightarrow> Inr (Some (format_tool_result py result)))
                 else Inr None)))"
proof (intro conjI impI)
  assume n: "tool_count sessions \<noteq> 1"
  show "fst (maybe_auto_call_tool py st) = Inr None"
  proof (cases "extract_json_payload py (files st) (used_filenames st)")
    case None
    then show ?thesis by (simp add: maybe_auto_call_tool_None)
  next
    case (Some pf)
    then obtain p f where "extract_json_payload py (files st) (used_filenames st) = Some (p, f)"
      by (cases pf) auto
    from maybe_auto_call_tool_Some [OF this assms] n show ?thesis by (simp add: Let_def)
  qed
next
  assume a: "tool_count sessions = 1
     \<and> extract_json_payload py (files st) (used_filenames st) = Some (payload, fname)"
  then obtain server_name s t where d: "discovered sessions = [(server_name, s, t)]"
    using discovered_single by blast
  then have "(server_name, s, t) \<in> set (discovered sessions)" by simp
  then have m: "(server_name, s) \<in> set sessions" by (simp add: discovered_in_sessions)
  from a have e: "extract_json_payload py (files st) (used_filenames st) = Some (payload, fname)"
    by simp
  have "fst (maybe_auto_call_tool py st) =
                (if payload_matches_schema
                      (case inputSchema t of None \<Rightarrow> Map.empty | Some sch \<Rightarrow> sch) payload
                 then (case call_tool s (name t) payload of
                         Inl e \<Rightarrow> Inl e
                       | Inr result \<Rightarrow> Inr (Some (format_tool_result py result)))
                 else Inr None)"
    using a d by (simp add: maybe_auto_call_tool_Some [OF e assms] Let_def split: sum.splits)
  with d m show "\<exists>server_name s t.
              discovered sessions = [(server_name, s, t)]
            \<and> (server_name, s) \<in> set sessions
            \<and> fst (maybe_auto_call_tool py st) =
                (if payload_matches_schema
                      (case inputSchema t of None \<Rightarrow> Map.empty | Some sch \<Rightarrow> sch) payload
                 then (case call_tool s (name t) payload of
                         Inl e \<Rightarrow> Inl e
                       | Inr result \<Rightarrow> Inr (Some (format_tool_result py result)))
                 else Inr None)"
    by blast
qed

lemmas orchestrator_defs =
  maybe_auto_call_tool_def obtain_sessions_def get_all_active_sessions_def
  create_all_sessions_def record_request_def state_of_def client_of_def session_of_def
  session_down_def session_failing_def tool_object_def tool_array_def
  payload_matches_schema_def format_tool_result_def result_ok_def ok_text_def
  strip_def isspace_def nl_def tool_count_def Let_def

theorem abstains_unless_exactly_one_tool_witness:
  "tool_count [(''s1'', session_of []), (''s2'', session_down),
               (''s3'', session_of [tool_object]), (''s4'', session_of [])] = 1
   \<and> fst (maybe_auto_call_tool py_sample
              (state_of [(''s1'', session_of []), (''s2'', session_down),
                         (''s3'', session_of [tool_object]), (''s4'', session_of [])] [a_json]))
       = Inr (Some ok_text)
   \<and> tool_count [(''s1'', session_of [tool_object]), (''s2'', session_of [tool_array])] = 2
   \<and> fst (maybe_auto_call_tool py_sample
              (state_of [(''s1'', session_of [tool_object]), (''s2'', session_of [tool_array])]
                 [a_json]))
       = Inr None
   \<and> tool_count [] = 0
   \<and> fst (maybe_auto_call_tool py_sample (state_of [] [a_json])) = Inr None"
proof -
  have h1: "obtain_sessions (client (state_of [(''s1'', session_of []), (''s2'', session_down),
                         (''s3'', session_of [tool_object]), (''s4'', session_of [])] [a_json]))
     = (Inr [(''s1'', session_of []), (''s2'', session_down),
                         (''s3'', session_of [tool_object]), (''s4'', session_of [])],
        (client_of [(''s1'', session_of []), (''s2'', session_down),
                         (''s3'', session_of [tool_object]), (''s4'', session_of [])])
          \<lparr> active_sessions := [(''s1'', session_of []), (''s2'', session_down),
                         (''s3'', session_of [tool_object]), (''s4'', session_of [])],
            requests := [CreateAllSessions] \<rparr>)"
    by (simp add: obtain_sessions_def get_all_active_sessions_def create_all_sessions_def
          state_of_def client_of_def)
  have h2: "obtain_sessions (client (state_of
               [(''s1'', session_of [tool_object]), (''s2'', session_of [tool_array])] [a_json]))
     = (Inr [(''s1'', session_of [tool_object]), (''s2'', session_of [tool_array])],
        (client_of [(''s1'', session_of [tool_object]), (''s2'', session_of [tool_array])])
          \<lparr> active_sessions := [(''s1'', session_of [tool_object]), (''s2'', session_of [tool_array])],
            requests := [CreateAllSessions] \<rparr>)"
    by (simp add: obtain_sessions_def get_all_active_sessions_def create_all_sessions_def
          state_of_def client_of_def)
  have h3: "obtain_sessions (client (state_of [] [a_json]))
     = (Inr [], (client_of []) \<lparr> active_sessions := [], requests := [CreateAllSessions] \<rparr>)"
    by (simp add: obtain_sessions_def get_all_active_sessions_def create_all_sessions_def
          state_of_def client_of_def)
  show ?thesis
    using abstains_unless_exactly_one_tool [OF h1, of py_sample "JObj [(''x'', JInt 1)]" "''a.json''"]
          abstains_unless_exactly_one_tool [OF h2, of py_sample "JObj [(''x'', JInt 1)]" "''a.json''"]
          abstains_unless_exactly_one_tool [OF h3, of py_sample "JObj [(''x'', JInt 1)]" "''a.json''"]
    by (simp add: orchestrator_defs sample_defs)
qed

lemma maybe_auto_call_tool_cases:
  obtains
    (no_payload)
      "extract_json_payload py (files st) (used_filenames st) = None"
      "maybe_auto_call_tool py st = (Inr None, st)"
  | (no_sessions) payload fname e c1 where
      "extract_json_payload py (files st) (used_filenames st) = Some (payload, fname)"
      "obtain_sessions (client st) = (Inl e, c1)"
      "maybe_auto_call_tool py st = (Inl e, st\<lparr> client := c1 \<rparr>)"
  | (ambiguous) payload fname sessions c1 where
      "extract_json_payload py (files st) (used_filenames st) = Some (payload, fname)"
      "obtain_sessions (client st) = (Inr sessions, c1)"
      "tool_count sessions \<noteq> 1"
      "maybe_auto_call_tool py st =
         (Inr None,
          st\<lparr> client :=
                c1\<lparr> requests := requests c1 @ map (\<lambda>ns. ListTools (fst ns)) sessions \<rparr> \<rparr>)"
  | (single) payload fname sessions c1 server_name s t where
      "extract_json_payload py (files st) (used_filenames st) = Some (payload, fname)"
      "obtain_sessions (client st) = (Inr sessions, c1)"
      "discovered sessions = [(server_name, s, t)]"
      "maybe_auto_call_tool py st =
         call_single_tool py
           (st\<lparr> client :=
                 c1\<lparr> requests := requests c1 @ map (\<lambda>ns. ListTools (fst ns)) sessions \<rparr> \<rparr>)
           payload fname (server_name, s, t)"
proof (cases "extract_json_payload py (files st) (used_filenames st)")
  case None
  then show ?thesis using no_payload by (simp add: maybe_auto_call_tool_None)
next
  case (Some pf)
  then obtain payload fname where
    e: "extract_json_payload py (files st) (used_filenames st) = Some (payload, fname)"
    by (cases pf) auto
  obtain res c1 where o: "obtain_sessions (client st) = (res, c1)"
    by (cases "obtain_sessions (client st)")
  show ?thesis
  proof (cases res)
    case (Inl err)
    with e o show ?thesis using no_sessions by (simp add: maybe_auto_call_tool_Inl)
  next
    case (Inr sessions)
    with o have o': "obtain_sessions (client st) = (Inr sessions, c1)" by simp
    show ?thesis
    proof (cases "tool_count sessions = 1")
      case False
      with maybe_auto_call_tool_Some [OF e o'] show ?thesis
        using ambiguous [OF e o'] by (simp add: Let_def)
    next
      case True
      then obtain server_name s t where d: "discovered sessions = [(server_name, s, t)]"
        by (rule discovered_single)
      with True maybe_auto_call_tool_Some [OF e o'] show ?thesis
        using single [OF e o' d] by (simp add: Let_def)
    qed
  qed
qed

lemma obtain_sessions_frame:
  "obtain_sessions c = (res, c1) \<Longrightarrow>
     (active_sessions c1 \<noteq> active_sessions c \<longrightarrow>
        active_sessions c = [] \<and> configured c = Inr (active_sessions c1))
     \<and> length (requests c) \<le> length (requests c1)
     \<and> (active_sessions c = [] \<longrightarrow> length (requests c) < length (requests c1))
     \<and> (\<forall>sessions. res = Inr sessions \<and> active_sessions c \<noteq> [] \<longrightarrow> 0 < length sessions)"
  by (auto simp: obtain_sessions_def get_all_active_sessions_def create_all_sessions_def Let_def
           split: if_splits sum.splits)

lemma call_single_tool_requests:
  "call_single_tool py st payload fname triple = (res, st') \<Longrightarrow>
     length (requests (client st)) \<le> length (requests (client st'))"
  by (cases triple)
     (auto simp: Let_def record_request_def split: if_splits sum.splits)

lemma call_single_tool_outcome:
  "payload_matches_schema (case inputSchema t of None \<Rightarrow> Map.empty | Some sch \<Rightarrow> sch) payload \<Longrightarrow>
   call_single_tool py st payload fname (server_name, s, t) = (res, st') \<Longrightarrow>
     (case call_tool s (name t) payload of
        Inl err \<Rightarrow> res = Inl err \<and> used_filenames st' = used_filenames st
      | Inr result \<Rightarrow>
          res = Inr (Some (format_tool_result py result))
          \<and> used_filenames st' = map_option (insert fname) (used_filenames st))"
  by (auto simp: Let_def split: sum.splits option.splits)

lemma call_single_tool_used_changed:
  "call_single_tool py st payload fname (server_name, s, t) = (res, st') \<Longrightarrow>
   used_filenames st' \<noteq> used_filenames st \<Longrightarrow>
     \<exists>result. call_tool s (name t) payload = Inr result
       \<and> res = Inr (Some (format_tool_result py result))
       \<and> used_filenames st' = map_option (insert fname) (used_filenames st)"
  by (auto simp: Let_def split: sum.splits option.splits if_splits)

declare call_single_tool.simps [simp del]

text \<open>
  Claim C5. The filename is added to the used set only after \<open>call_tool\<close> has returned
  a result. When the call of the single tool raises, the exception is the outcome of
  \<open>maybe_auto_call_tool\<close> and the used set is unchanged; whenever the orchestrator fails,
  the used set is unchanged; and whenever the used set has changed, the call returned a
  result, the outcome is that result formatted, and exactly the extracted filename was
  added.
\<close>

theorem used_only_after_successful_call:
  "(fst (maybe_auto_call_tool py st) = Inl e \<longrightarrow>
      used_filenames (snd (maybe_auto_call_tool py st)) = used_filenames st)
   \<and> (extract_json_payload py (files st) (used_filenames st) = Some (payload, fname)
        \<and> obtain_sessions (client st) = (Inr sessions, c')
        \<and> discovered sessions = [(server_name, s, t)]
        \<and> payload_matches_schema
             (case inputSchema t of None \<Rightarrow> Map.empty | Some sch \<Rightarrow> sch) payload \<longrightarrow>
        (case call_tool s (name t) payload of
           Inl err \<Rightarrow>
             fst (maybe_auto_call_tool py st) = Inl err
             \<and> used_filenames (snd (maybe_auto_call_tool py st)) = used_filenames st
         | Inr result \<Rightarrow>
             fst (maybe_auto_call_tool py st) = Inr (Some (format_tool_result py result))
             \<and> used_filenames (snd (maybe_auto_call_tool py st))
                 = map_option (insert fname) (used_filenames st)))
   \<and> (used_filenames (snd (maybe_auto_call_tool py st)) \<noteq> used_filenames st \<longrightarrow>
        (\<exists>payload' fname' sessions' c1' server_name' s' t' result.
            extract_json_payload py (files st) (used_filenames st) = Some (payload', fname')
          \<and> obtain_sessions (client st) = (Inr sessions', c1')
          \<and> discovered sessions' = [(server_name', s', t')]
          \<and> call_tool s' (name t') payload' = Inr result
          \<and> fst (maybe_auto_call_tool py st) = Inr (Some (format_tool_result py result))
          \<and> used_filenames (snd (maybe_auto_call_tool py st))
              = map_option (insert fname') (used_filenames st)))"
proof (intro conjI impI)
  assume f: "fst (maybe_auto_call_tool py st) = Inl e"
  show "used_filenames (snd (maybe_auto_call_tool py st)) = used_filenames st"
  proof (cases rule: maybe_auto_call_tool_cases [of py st])
    case no_payload
    then show ?thesis by simp
  next
    case (no_sessions payload fname e c1)
    then show ?thesis by simp
  next
    case (ambiguous payload fname sessions c1)
    then show ?thesis by simp
  next
    case (single payload fname sessions c1 server_name s t)
    obtain res st' where r: "maybe_auto_call_tool py st = (res, st')"
      by (cases "maybe_auto_call_tool py st")
    with single(4) have cs: "call_single_tool py
           (st\<lparr> client :=
                 c1\<lparr> requests := requests c1 @ map (\<lambda>ns. ListTools (fst ns)) sessions \<rparr> \<rparr>)
           payload fname (server_name, s, t) = (res, st')"
      by simp
    from f r have "res = Inl e" by simp
    with call_single_tool_frame [OF cs] r show ?thesis by simp
  qed
next
  assume a: "extract_json_payload py (files st) (used_filenames st) = Some (payload, fname)
        \<and> obtain_sessions (client st) = (Inr sessions, c')
        \<and> discovered sessions = [(server_name, s, t)]
        \<and> payload_matches_schema
             (case inputSchema t of None \<Rightarrow> Map.empty | Some sch \<Rightarrow> sch) payload"
  then have e: "extract_json_payload py (files st) (used_filenames st) = Some (payload, fname)"
    and o: "obtain_sessions (client st) = (Inr sessions, c')"
    and d: "discovered sessions = [(server_name, s, t)]"
    and m: "payload_matches_schema
             (case inputSchema t of None \<Rightarrow> Map.empty | Some sch \<Rightarrow> sch) payload"
    by simp_all
  from d have "length (discovered sessions) = 1" by simp
  then have n: "tool_count sessions = 1" by (simp add: length_discovered)
  obtain res st' where r: "maybe_auto_call_tool py st = (res, st')"
    by (cases "maybe_auto_call_tool py st")
  with maybe_auto_call_tool_Some [OF e o] n d
  have "call_single_tool py
           (st\<lparr> client :=
                 c'\<lparr> requests := requests c' @ map (\<lambda>ns. ListTools (fst ns)) sessions \<rparr> \<rparr>)
           payload fname (server_name, s, t) = (res, st')"
    by (simp add: Let_def)
  from call_single_tool_outcome [OF m this] r
  show "case call_tool s (name t) payload of
           Inl err \<Rightarrow>
             fst (maybe_auto_call_tool py st) = Inl err
             \<and> used_filenames (snd (maybe_auto_call_tool py st)) = used_filenames st
         | Inr result \<Rightarrow>
             fst (maybe_auto_call_tool py st) = Inr (Some (format_tool_result py result))
             \<and> used_filenames (snd (maybe_auto_call_tool py st))
                 = map_option (insert fname) (used_filenames st)"
    by (simp split: sum.splits)
next
  assume c: "used_filenames (snd (maybe_auto_call_tool py st)) \<noteq> used_filenames st"
  show "\<exists>payload' fname' sessions' c1' server_name' s' t' result.
            extract_json_payload py (files st) (used_filenames st) = Some (payload', fname')
          \<and> obtain_sessions (client st) = (Inr sessions', c1')
          \<and> discovered sessions' = [(server_name', s', t')]
          \<and> call_tool s' (name t') payload' = Inr result
          \<and> fst (maybe_auto_call_tool py st) = Inr (Some (format_tool_result py result))
          \<and> used_filenames (snd (maybe_auto_call_tool py st))
              = map_option (insert fname') (used_filenames st)"
  proof (cases rule: maybe_auto_call_tool_cases [of py st])
    case no_payload
    with c show ?thesis by simp
  next
    case (no_sessions payload fname e c1)
    with c show ?thesis by simp
  next
    case (ambiguous payload fname sessions c1)
    with c show ?thesis by simp
  next
    case (single payload' fname' sessions' c1' server_name' s' t')
    obtain res st' where r: "maybe_auto_call_tool py st = (res, st')"
      by (cases "maybe_auto_call_tool py st")
    with single(4) have cs: "call_single_tool py
           (st\<lparr> client :=
                 c1'\<lparr> requests := requests c1' @ map (\<lambda>ns. ListTools (fst ns)) sessions' \<rparr> \<rparr>)
           payload' fname' (server_name', s', t') = (res, st')"
      by simp
    from c r have "used_filenames st' \<noteq> used_filenames
           (st\<lparr> client :=
                 c1'\<lparr> requests := requests c1' @ map (\<lambda>ns. ListTools (fst ns)) sessions' \<rparr> \<rparr>)"
      by simp
    from call_single_tool_used_changed [OF cs this] obtain result where
      "call_tool s' (name t') payload' = Inr result"
      "res = Inr (Some (format_tool_result py result))"
      "used_filenames st' = map_option (insert fname') (used_filenames st)"
      by auto
    with single(1,2,3) r show ?thesis by auto
  qed
qed

theorem used_only_after_successful_call_witness:
  "fst (maybe_auto_call_tool py_sample (state_of [(''s1'', session_failing)] [a_json]))
     = Inl (PyException ''McpError'' ''tool failed'')
   \<and> used_filenames (snd (maybe_auto_call_tool py_sample
                               (state_of [(''s1'', session_failing)] [a_json]))) = Some {}
   \<and> fst (maybe_auto_call_tool py_sample (state_of [(''s1'', session_of [tool_object])] [a_json]))
     = Inr (Some ok_text)
   \<and> used_filenames (snd (maybe_auto_call_tool py_sample
                               (state_of [(''s1'', session_of [tool_object])] [a_json])))
     = Some {''a.json''}"
  using used_only_after_successful_call
          [where py = py_sample and st = "state_of [(''s1'', session_failing)] [a_json]"
             and e = "PyException ''McpError'' ''tool failed''"
             and payload = "JObj [(''x'', JInt 1)]" and fname = "''a.json''"
             and sessions = "[(''s1'', session_failing)]"
             and c' = "(client_of [(''s1'', session_failing)])
                         \<lparr> active_sessions := [(''s1'', session_failing)],
                           requests := [CreateAllSessions] \<rparr>"
             and server_name = "''s1''" and s = session_failing and t = tool_object]
        used_only_after_successful_call
          [where py = py_sample and st = "state_of [(''s1'', session_of [tool_object])] [a_json]"
             and e = "PyException ''McpError'' ''tool failed''"
             and payload = "JObj [(''x'', JInt 1)]" and fname = "''a.json''"
             and sessions = "[(''s1'', session_of [tool_object])]"
             and c' = "(client_of [(''s1'', session_of [tool_object])])
                         \<lparr> active_sessions := [(''s1'', session_of [tool_object])],
                           requests := [CreateAllSessions] \<rparr>"
             and server_name = "''s1''" and s = "session_of [tool_object]" and t = tool_object]
  by (simp add: orchestrator_defs sample_defs call_single_tool.simps)

text \<open>
  Claim C10. When \<open>maybe_auto_call_tool\<close> returns \<open>None\<close>, the attachments and the used
  set are as before. When no payload is extracted, the whole state is as before: no
  session was created and no request was sent. When a payload is extracted, at least
  one request is sent, so the payload check comes before any session activity.
\<close>

theorem abstention_changes_nothing:
  "(fst (maybe_auto_call_tool py st) = Inr None \<longrightarrow>
      files (snd (maybe_auto_call_tool py st)) = files st
      \<and> used_filenames (snd (maybe_auto_call_tool py st)) = used_filenames st)
   \<and> (extract_json_payload py (files st) (used_filenames st) = None \<longrightarrow>
        maybe_auto_call_tool py st = (Inr None, st)
        \<and> requests (client (snd (maybe_auto_call_tool py st))) = requests (client st)
        \<and> active_sessions (client (snd (maybe_auto_call_tool py st)))
            = active_sessions (client st))
   \<and> (extract_json_payload py (files st) (used_filenames st) \<noteq> None \<longrightarrow>
        length (requests (client st))
          < length (requests (client (snd (maybe_auto_call_tool py st)))))"
proof (intro conjI impI)
  assume f: "fst (maybe_auto_call_tool py st) = Inr None"
  show "files (snd (maybe_auto_call_tool py st)) = files st"
  proof (cases rule: maybe_auto_call_tool_cases [of py st])
    case (single payload fname sessions c1 server_name s t)
    obtain res st' where r: "maybe_auto_call_tool py st = (res, st')"
      by (cases "maybe_auto_call_tool py st")
    with single(4) have cs: "call_single_tool py
           (st\<lparr> client :=
                 c1\<lparr> requests := requests c1 @ map (\<lambda>ns. ListTools (fst ns)) sessions \<rparr> \<rparr>)
           payload fname (server_name, s, t) = (res, st')"
      by simp
    from call_single_tool_frame [OF cs] r show ?thesis by simp
  qed simp_all
  show "used_filenames (snd (maybe_auto_call_tool py st)) = used_filenames st"
  proof (cases rule: maybe_auto_call_tool_cases [of py st])
    case (single payload fname sessions c1 server_name s t)
    obtain res st' where r: "maybe_auto_call_tool py st = (res, st')"
      by (cases "maybe_auto_call_tool py st")
    with single(4) have cs: "call_single_tool py
           (st\<lparr> client :=
                 c1\<lparr> requests := requests c1 @ map (\<lambda>ns. ListTools (fst ns)) sessions \<rparr> \<rparr>)
           payload fname (server_name, s, t) = (res, st')"
      by simp
    from f r have "res = Inr None" by simp
    with call_single_tool_frame [OF cs] r show ?thesis by simp
  qed simp_all
next
  assume n: "extract_json_payload py (files st) (used_filenames st) = None"
  then show "maybe_auto_call_tool py st = (Inr None, st)"
    by (rule maybe_auto_call_tool_None)
  then show "requests (client (snd (maybe_auto_call_tool py st))) = requests (client st)"
    and "active_sessions (client (snd (maybe_auto_call_tool py st)))
            = active_sessions (client st)"
    by simp_all
next
  assume p: "extract_json_payload py (files st) (used_filenames st) \<noteq> None"
  show "length (requests (client st))
          < length (requests (client (snd (maybe_auto_call_tool py st))))"
  proof (cases rule: maybe_auto_call_tool_cases [of py st])
    case no_payload
    with p show ?thesis by simp
  next
    case (no_sessions payload fname e c1)
    then show ?thesis
      by (auto simp: obtain_sessions_def get_all_active_sessions_def create_all_sessions_def
            Let_def split: if_splits sum.splits)
  next
    case (ambiguous payload fname sessions c1)
    from obtain_sessions_frame [OF ambiguous(2)]
    have le: "length (requests (client st)) \<le> length (requests c1)"
      and lt: "active_sessions (client st) = [] \<longrightarrow>
                 length (requests (client st)) < length (requests c1)"
      and pos: "active_sessions (client st) \<noteq> [] \<longrightarrow> 0 < length sessions"
      by blast+
    show ?thesis
    proof (cases "active_sessions (client st) = []")
      case True
      with lt have "length (requests (client st)) < length (requests c1)" by blast
      with ambiguous(4) show ?thesis by simp
    next
      case False
      with pos have "0 < length sessions" by blast
      with le ambiguous(4) show ?thesis by (simp del: length_greater_0_conv)
    qed
  next
    case (single payload fname sessions c1 server_name s t)
    obtain res st' where r: "maybe_auto_call_tool py st = (res, st')"
      by (cases "maybe_auto_call_tool py st")
    with single(4) have cs: "call_single_tool py
           (st\<lparr> client :=
                 c1\<lparr> requests := requests c1 @ map (\<lambda>ns. ListTools (fst ns)) sessions \<rparr> \<rparr>)
           payload fname (server_name, s, t) = (res, st')"
      by simp
    from single(3) have "0 < length sessions" by (auto simp: discovered_def)
    moreover from obtain_sessions_frame [OF single(2)]
    have "length (requests (client st)) \<le> length (requests c1)" by blast
    moreover from call_single_tool_requests [OF cs]
    have "length (requests c1) + length sessions \<le> length (requests (client st'))" by simp
    ultimately show ?thesis using r by (simp del: length_greater_0_conv)
  qed
qed

theorem abstention_changes_nothing_witness:
  "maybe_auto_call_tool py_sample (state_of [(''s1'', session_of [tool_object])] [notes_txt])
     = (Inr None, state_of [(''s1'', session_of [tool_object])] [notes_txt])
   \<and> extract_json_payload py_sample [notes_txt] (Some {}) = None
   \<and> fst (maybe_auto_call_tool py_sample (state_of [(''s1'', session_of [tool_array])] [a_json]))
     = Inr None
   \<and> files (snd (maybe_auto_call_tool py_sample
                      (state_of [(''s1'', session_of [tool_array])] [a_json]))) = [a_json]
   \<and> used_filenames (snd (maybe_auto_call_tool py_sample
                      (state_of [(''s1'', session_of [tool_array])] [a_json]))) = Some {}
   \<and> requests (client (snd (maybe_auto_call_tool py_sample
                      (state_of [(''s1'', session_of [tool_array])] [a_json]))))
     = [CreateAllSessions, ListTools ''s1'']"
  using abstention_changes_nothing
          [of py_sample "state_of [(''s1'', session_of [tool_object])] [notes_txt]"]
        abstention_changes_nothing
          [of py_sample "state_of [(''s1'', session_of [tool_array])] [a_json]"]
  by (simp add: orchestrator_defs sample_defs call_single_tool.simps)

text \<open>
  The requests and the outcome of the orchestrator once a payload is extracted and the
  sessions are obtained: every session is asked for its tools, in order, and the
  outcome is decided on the tools discovered.
\<close>

lemma call_single_tool_requests_eq:
  "call_single_tool py st payload fname (sn, s', t) = (res, st') \<Longrightarrow>
     requests (client st') =
       requests (client st) @
         (if payload_matches_schema
               (case inputSchema t of None \<Rightarrow> Map.empty | Some sch \<Rightarrow> sch) payload
          then [CallTool sn (name t) payload] else [])"
  by (auto simp: call_single_tool.simps Let_def record_request_def split: if_splits sum.splits)

lemma call_single_tool_fst:
  "fst (call_single_tool py st payload fname (sn, s', t)) =
     (if payload_matches_schema
           (case inputSchema t of None \<Rightarrow> Map.empty | Some sch \<Rightarrow> sch) payload
      then (case call_tool s' (name t) payload of
              Inl err \<Rightarrow> Inl err
            | Inr result \<Rightarrow> Inr (Some (format_tool_result py result)))
      else Inr None)"
  by (auto simp: call_single_tool.simps Let_def split: sum.splits)

lemma discovered_skip_failing:
  "list_tools s = Inl e \<Longrightarrow>
     discovered (before @ (server_name, s) # after) = discovered (before @ after)"
  by (simp add: discovered_def session_tools_def)

lemma maybe_auto_call_tool_requests:
  assumes e: "extract_json_payload py (files st) (used_filenames st) = Some (payload, fname)"
    and o: "obtain_sessions (client st) = (Inr sessions, c')"
  shows "requests (client (snd (maybe_auto_call_tool py st))) =
           requests c' @ map (\<lambda>ns. ListTools (fst ns)) sessions @
             (case discovered sessions of
                [(sn, s', t)] \<Rightarrow>
                  if payload_matches_schema
                       (case inputSchema t of None \<Rightarrow> Map.empty | Some sch \<Rightarrow> sch) payload
                  then [CallTool sn (name t) payload] else []
              | _ \<Rightarrow> [])"
proof (cases "tool_count sessions = 1")
  case True
  then obtain sn s' t where d: "discovered sessions = [(sn, s', t)]"
    by (rule discovered_single)
  obtain res st' where r: "maybe_auto_call_tool py st = (res, st')"
    by (cases "maybe_auto_call_tool py st")
  with maybe_auto_call_tool_Some [OF e o] True d
  have cs: "call_single_tool py
         (st\<lparr> client :=
               c'\<lparr> requests := requests c' @ map (\<lambda>ns. ListTools (fst ns)) sessions \<rparr> \<rparr>)
         payload fname (sn, s', t) = (res, st')"
    by (simp add: Let_def)
  from call_single_tool_requests_eq [OF cs] r d show ?thesis by simp
next
  case False
  then have "length (discovered sessions) \<noteq> 1" by (simp add: length_discovered)
  then have "(case discovered sessions of
                [(sn, s', t)] \<Rightarrow>
                  if payload_matches_schema
                       (case inputSchema t of None \<Rightarrow> Map.empty | Some sch \<Rightarrow> sch) payload
                  then [CallTool sn (name t) payload] else []
              | _ \<Rightarrow> []) = []"
    by (auto split: list.splits)
  with maybe_auto_call_tool_Some [OF e o] False show ?thesis by (simp add: Let_def)
qed

lemma maybe_auto_call_tool_outcome:
  assumes e: "extract_json_payload py (files st) (used_filenames st) = Some (payload, fname)"
    and o: "obtain_sessions (client st) = (Inr sessions, c')"
  shows "fst (maybe_auto_call_tool py st) =
           (case discovered sessions of
              [(sn, s', t)] \<Rightarrow>
                if payload_matches_schema
                     (case inputSchema t of None \<Rightarrow> Map.empty | Some sch \<Rightarrow> sch) payload
                then (case call_tool s' (name t) payload of
                        Inl err \<Rightarrow> Inl err
                      | Inr result \<Rightarrow> Inr (Some (format_tool_result py result)))
                else Inr None
            | _ \<Rightarrow> Inr None)"
proof (cases "tool_count sessions = 1")
  case True
  then obtain sn s' t where d: "discovered sessions = [(sn, s', t)]"
    by (rule discovered_single)
  with maybe_auto_call_tool_Some [OF e o] True show ?thesis
    by (simp add: Let_def call_single_tool_fst)
next
  case False
  then have "length (discovered sessions) \<noteq> 1" by (simp add: length_discovered)
  then have "(case discovered sessions of
              [(sn, s', t)] \<Rightarrow>
                if payload_matches_schema
                     (case inputSchema t of None \<Rightarrow> Map.empty | Some sch \<Rightarrow> sch) payload
                then (case call_tool s' (name t) payload of
                        Inl err \<Rightarrow> Inl err
                      | Inr result \<Rightarrow> Inr (Some (format_tool_result py result)))
                else Inr None
            | _ \<Rightarrow> Inr None) = Inr None"
    by (auto split: list.splits)
  with maybe_auto_call_tool_Some [OF e o] False show ?thesis by (simp add: Let_def)
qed

text \<open>
  Claim C6. The enumerator creates the sessions of all configured servers only when
  there is no active session, and this is the only change \<open>maybe_auto_call_tool\<close> makes
  to the registry. A session whose tool list fails contributes no tool, the sessions
  before and after it contribute theirs, and every session is asked in order. In
  \<open>maybe_auto_call_tool\<close> itself, with a payload extracted, the requests sent are the
  tool-list request of every session followed by the call of the single tool when
  there is one and its schema matches; and when one session's tool list fails, the
  outcome is the one that the tools of the remaining sessions decide, never that
  session's exception.
\<close>

theorem enumeration_isolates_failures:
  "(active_sessions c \<noteq> [] \<longrightarrow> obtain_sessions c = (Inr (active_sessions c), c))
   \<and> (active_sessions c = [] \<longrightarrow>
        obtain_sessions c = create_all_sessions c
        \<and> (configured c = Inr created \<longrightarrow>
             obtain_sessions c =
               (Inr created,
                c\<lparr> active_sessions := created, requests := requests c @ [CreateAllSessions] \<rparr>)))
   \<and> (active_sessions (client (snd (maybe_auto_call_tool py st))) \<noteq> active_sessions (client st) \<longrightarrow>
        active_sessions (client st) = []
        \<and> configured (client st)
            = Inr (active_sessions (client (snd (maybe_auto_call_tool py st)))))
   \<and> (list_tools s = Inl e \<longrightarrow>
        fst (collect_tools (before @ (server_name, s) # after) [] reqs)
          = fst (collect_tools (before @ after) [] reqs))
   \<and> (list_tools s = Inr ts \<longrightarrow>
        fst (collect_tools (before @ (server_name, s) # after) [] reqs)
          = fst (collect_tools before [] reqs) @ map (\<lambda>t. (server_name, s, t)) ts
              @ fst (collect_tools after [] reqs))
   \<and> snd (collect_tools ss [] reqs) = reqs @ map (\<lambda>ns. ListTools (fst ns)) ss
   \<and> (extract_json_payload py (files st) (used_filenames st) = Some (payload, fname)
        \<and> obtain_sessions (client st) = (Inr sessions, c') \<longrightarrow>
        requests (client (snd (maybe_auto_call_tool py st))) =
          requests c' @ map (\<lambda>ns. ListTools (fst ns)) sessions @
            (case discovered sessions of
               [(sn, s', t)] \<Rightarrow>
                 if payload_matches_schema
                      (case inputSchema t of None \<Rightarrow> Map.empty | Some sch \<Rightarrow> sch) payload
                 then [CallTool sn (name t) payload] else []
             | _ \<Rightarrow> []))
   \<and> (extract_json_payload py (files st) (used_filenames st) = Some (payload, fname)
        \<and> obtain_sessions (client st) = (Inr (before @ (server_name, s) # after), c')
        \<and> list_tools s = Inl e \<longrightarrow>
        fst (maybe_auto_call_tool py st) =
          (case discovered (before @ after) of
             [(sn, s', t)] \<Rightarrow>
               if payload_matches_schema
                    (case inputSchema t of None \<Rightarrow> Map.empty | Some sch \<Rightarrow> sch) payload
               then (case call_tool s' (name t) payload of
                       Inl err \<Rightarrow> Inl err
                     | Inr result \<Rightarrow> Inr (Some (format_tool_result py result)))
               else Inr None
           | _ \<Rightarrow> Inr None)
        \<and> requests (client (snd (maybe_auto_call_tool py st))) =
            requests c' @ map (\<lambda>ns. ListTools (fst ns)) (before @ (server_name, s) # after) @
              (case discovered (before @ after) of
                 [(sn, s', t)] \<Rightarrow>
                   if payload_matches_schema
                        (case inputSchema t of None \<Rightarrow> Map.empty | Some sch \<Rightarrow> sch) payload
                   then [CallTool sn (name t) payload] else []
               | _ \<Rightarrow> []))"
proof (intro conjI impI)
  assume "active_sessions c \<noteq> []"
  then show "obtain_sessions c = (Inr (active_sessions c), c)"
    by (simp add: obtain_sessions_def get_all_active_sessions_def)
next
  assume a: "active_sessions c = []"
  then show "obtain_sessions c = create_all_sessions c"
    by (simp add: obtain_sessions_def get_all_active_sessions_def)
  assume "configured c = Inr created"
  with a show "obtain_sessions c =
               (Inr created,
                c\<lparr> active_sessions := created, requests := requests c @ [CreateAllSessions] \<rparr>)"
    by (simp add: obtain_sessions_def get_all_active_sessions_def create_all_sessions_def)
next
  assume ch: "active_sessions (client (snd (maybe_auto_call_tool py st)))
                \<noteq> active_sessions (client st)"
  have "active_sessions (client st) = []
        \<and> configured (client st)
            = Inr (active_sessions (client (snd (maybe_auto_call_tool py st))))"
  proof (cases rule: maybe_auto_call_tool_cases [of py st])
    case no_payload
    with ch show ?thesis by simp
  next
    case (no_sessions payload fname e c1)
    with ch obtain_sessions_frame [OF no_sessions(2)] show ?thesis by simp
  next
    case (ambiguous payload fname sessions c1)
    with ch obtain_sessions_frame [OF ambiguous(2)] show ?thesis by simp
  next
    case (single payload fname sessions c1 server_name s t)
    obtain res st' where r: "maybe_auto_call_tool py st = (res, st')"
      by (cases "maybe_auto_call_tool py st")
    with single(4) have cs: "call_single_tool py
           (st\<lparr> client :=
                 c1\<lparr> requests := requests c1 @ map (\<lambda>ns. ListTools (fst ns)) sessions \<rparr> \<rparr>)
           payload fname (server_name, s, t) = (res, st')"
      by simp
    from call_single_tool_frame [OF cs]
    have "active_sessions (client st') = active_sessions c1" by simp
    with ch r obtain_sessions_frame [OF single(2)] show ?thesis by simp
  qed
  then show "active_sessions (client st) = []"
    and "configured (client st)
            = Inr (active_sessions (client (snd (maybe_auto_call_tool py st))))"
    by simp_all
next
  assume "list_tools s = Inl e"
  then show "fst (collect_tools (before @ (server_name, s) # after) [] reqs)
          = fst (collect_tools (before @ after) [] reqs)"
    by (simp add: collect_tools_eq discovered_def session_tools_def)
next
  assume "list_tools s = Inr ts"
  then show "fst (collect_tools (before @ (server_name, s) # after) [] reqs)
          = fst (collect_tools before [] reqs) @ map (\<lambda>t. (server_name, s, t)) ts
              @ fst (collect_tools after [] reqs)"
    by (simp add: collect_tools_eq discovered_def session_tools_def)
next
  show "snd (collect_tools ss [] reqs) = reqs @ map (\<lambda>ns. ListTools (fst ns)) ss"
    by (simp add: collect_tools_eq)
next
  assume "extract_json_payload py (files st) (used_filenames st) = Some (payload, fname)
        \<and> obtain_sessions (client st) = (Inr sessions, c')"
  then have e: "extract_json_payload py (files st) (used_filenames st) = Some (payload, fname)"
    and o: "obtain_sessions (client st) = (Inr sessions, c')"
    by simp_all
  show "requests (client (snd (maybe_auto_call_tool py st))) =
          requests c' @ map (\<lambda>ns. ListTools (fst ns)) sessions @
            (case discovered sessions of
               [(sn, s', t)] \<Rightarrow>
                 if payload_matches_schema
                      (case inputSchema t of None \<Rightarrow> Map.empty | Some sch \<Rightarrow> sch) payload
                 then [CallTool sn (name t) payload] else []
             | _ \<Rightarrow> [])"
    by (rule maybe_auto_call_tool_requests [OF e o])
next
  assume "extract_json_payload py (files st) (used_filenames st) = Some (payload, fname)
        \<and> obtain_sessions (client st) = (Inr (before @ (server_name, s) # after), c')
        \<and> list_tools s = Inl e"
  then have e: "extract_json_payload py (files st) (used_filenames st) = Some (payload, fname)"
    and o: "obtain_sessions (client st) = (Inr (before @ (server_name, s) # after), c')"
    and l: "list_tools s = Inl e"
    by simp_all
  have d: "discovered (before @ (server_name, s) # after) = discovered (before @ after)"
    using l by (rule discovered_skip_failing)
  from maybe_auto_call_tool_outcome [OF e o]
  show "fst (maybe_auto_call_tool py st) =
          (case discovered (before @ after) of
             [(sn, s', t)] \<Rightarrow>
               if payload_matches_schema
                    (case inputSchema t of None \<Rightarrow> Map.empty | Some sch \<Rightarrow> sch) payload
               then (case call_tool s' (name t) payload of
                       Inl err \<Rightarrow> Inl err
                     | Inr result \<Rightarrow> Inr (Some (format_tool_result py result)))
               else Inr None
           | _ \<Rightarrow> Inr None)"
    unfolding d .
  from maybe_auto_call_tool_requests [OF e o]
  show "requests (client (snd (maybe_auto_call_tool py st))) =
            requests c' @ map (\<lambda>ns. ListTools (fst ns)) (before @ (server_name, s) # after) @
              (case discovered (before @ after) of
                 [(sn, s', t)] \<Rightarrow>
                   if payload_matches_schema
                        (case inputSchema t of None \<Rightarrow> Map.empty | Some sch \<Rightarrow> sch) payload
                   then [CallTool sn (name t) payload] else []
               | _ \<Rightarrow> [])"
    unfolding d .
qed

theorem enumeration_isolates_failures_witness:
  "fst (collect_tools [(''s1'', session_down), (''s2'', session_of [tool_object])] [] [])
     = [(''s2'', session_of [tool_object], tool_object)]
   \<and> snd (collect_tools [(''s1'', session_down), (''s2'', session_of [tool_object])] [] [])
     = [ListTools ''s1'', ListTools ''s2'']
   \<and> obtain_sessions (client_of [(''s1'', session_down)])
     = (Inr [(''s1'', session_down)],
        (client_of [(''s1'', session_down)])
          \<lparr> active_sessions := [(''s1'', session_down)], requests := [CreateAllSessions] \<rparr>)
   \<and> obtain_sessions ((client_of []) \<lparr> active_sessions := [(''s1'', session_down)] \<rparr>)
     = (Inr [(''s1'', session_down)],
        (client_of []) \<lparr> active_sessions := [(''s1'', session_down)] \<rparr>)
   \<and> active_sessions (client (snd (maybe_auto_call_tool py_sample
        (state_of [(''s1'', session_of [tool_object])] [a_json]))))
     = [(''s1'', session_of [tool_object])]
   \<and> fst (maybe_auto_call_tool py_sample
        (state_of [(''s1'', session_down), (''s2'', session_of [tool_object])] [a_json]))
     = Inr (Some ok_text)
   \<and> requests (client (snd (maybe_auto_call_tool py_sample
        (state_of [(''s1'', session_down), (''s2'', session_of [tool_object])] [a_json]))))
     = [CreateAllSessions, ListTools ''s1'', ListTools ''s2'',
        CallTool ''s2'' ''process'' (JObj [(''x'', JInt 1)])]
   \<and> requests (client (snd (maybe_auto_call_tool py_sample
        (state_of [(''s1'', session_of [tool_object]), (''s2'', session_down),
                   (''s3'', session_of [tool_array])] [a_json]))))
     = [CreateAllSessions, ListTools ''s1'', ListTools ''s2'', ListTools ''s3'']"
  using enumeration_isolates_failures
          [where c = "client_of [(''s1'', session_down), (''s2'', session_of [tool_object])]"
             and created = "[(''s1'', session_down), (''s2'', session_of [tool_object])]"
             and py = py_sample
             and st = "state_of [(''s1'', session_down), (''s2'', session_of [tool_object])] [a_json]"
             and s = session_down and e = "PyException ''ConnectionError'' ''connection closed''"
             and before = "[]" and server_name = "''s1''"
             and after = "[(''s2'', session_of [tool_object])]" and reqs = "[]"
             and ts = "[]" and ss = "[]"
             and payload = "JObj [(''x'', JInt 1)]" and fname = "''a.json''"
             and sessions = "[(''s1'', session_down), (''s2'', session_of [tool_object])]"
             and c' = "(client_of [(''s1'', session_down), (''s2'', session_of [tool_object])])
                         \<lparr> active_sessions :=
                             [(''s1'', session_down), (''s2'', session_of [tool_object])],
                           requests := [CreateAllSessions] \<rparr>"]
        enumeration_isolates_failures
          [where c = "client_of [(''s1'', session_down)]" and created = "[(''s1'', session_down)]"
             and py = py_sample and st = "state_of [(''s1'', session_of [tool_object])] [a_json]"
             and s = session_down and e = "PyException ''ConnectionError'' ''connection closed''"
             and before = "[]" and server_name = "''s1''"
             and after = "[(''s2'', session_of [tool_object])]" and reqs = "[]"
             and ts = "[]" and ss = "[(''s1'', session_down), (''s2'', session_of [tool_object])]"]
        enumeration_isolates_failures
          [where c = "(client_of []) \<lparr> active_sessions := [(''s1'', session_down)] \<rparr>"
             and created = "[]"
             and py = py_sample and st = "state_of [(''s1'', session_of [tool_object])] [a_json]"
             and s = "session_of [tool_object]" and e = "PyException ''ConnectionError'' ''connection closed''"
             and before = "[(''s1'', session_down)]" and server_name = "''s2''"
             and after = "[]" and reqs = "[]"
             and ts = "[tool_object]" and ss = "[]"]
  by (simp add: orchestrator_defs sample_defs call_single_tool.simps)

subsection \<open>Prompt Composer\<close>

lemma join_append_sep:
  "xs \<noteq> [] \<Longrightarrow> join sep xs @ sep = concat (map (\<lambda>x. x @ sep) xs)"
  by (induction sep xs rule: join.induct) simp_all

text \<open>
  Claim C7. An attachment whose mime type starts with \<open>text/\<close> or is
  \<open>application/json\<close> and whose content decodes is rendered as the block
  \<open>--- File: name ---\<close>, content, \<open>--- End of name ---\<close>; any other attachment, and one
  whose decoding fails, is rendered as the line
  \<open>[Attached file: name (mime, size bytes)]\<close>. Each rendering stands between two
  newlines. The composed prompt is the renderings in attachment order, each followed by
  a newline, and then the free text; for no attachment it is the free text.
\<close>

theorem prompt_composer_renders_in_order:
  "(textual f \<and> decode_data py f = Inr c \<longrightarrow>
      format_file_for_prompt py f = nl @ file_block (filename f) c @ nl)
   \<and> (\<not> textual f \<or> decode_data py f = Inl e \<longrightarrow>
        format_file_for_prompt py f
          = nl @ metadata_line (filename f) (mime_type f) (size_bytes f) @ nl)
   \<and> build_prompt_with_files py prompt fs
        = concat (map (\<lambda>f. format_file_for_prompt py f @ nl) fs) @ prompt
   \<and> build_prompt_with_files py prompt [] = prompt"
proof (intro conjI impI)
  assume "textual f \<and> decode_data py f = Inr c"
  then show "format_file_for_prompt py f = nl @ file_block (filename f) c @ nl"
    by (simp add: format_file_for_prompt_def textual_def file_block_def)
next
  assume "\<not> textual f \<or> decode_data py f = Inl e"
  then show "format_file_for_prompt py f
          = nl @ metadata_line (filename f) (mime_type f) (size_bytes f) @ nl"
    by (auto simp: format_file_for_prompt_def textual_def metadata_line_def)
next
  show "build_prompt_with_files py prompt fs
        = concat (map (\<lambda>f. format_file_for_prompt py f @ nl) fs) @ prompt"
  proof (cases "fs = []")
    case True
    then show ?thesis by (simp add: build_prompt_with_files_def)
  next
    case False
    then have "map (format_file_for_prompt py) fs \<noteq> []" by simp
    from join_append_sep [OF this, of nl] False show ?thesis
      by (simp add: build_prompt_with_files_def comp_def flip: append_assoc)
  qed
next
  show "build_prompt_with_files py prompt [] = prompt"
    by (simp add: build_prompt_with_files_def)
qed

theorem prompt_composer_renders_in_order_witness:
  "format_file_for_prompt py_sample notes_txt
     = nl @ ''--- File: notes.txt ---'' @ nl @ ''hello'' @ nl @ ''--- End of notes.txt ---'' @ nl
   \<and> format_file_for_prompt py_sample blob
     = nl @ ''[Attached file: blob (application/octet-stream, 1 bytes)]'' @ nl
   \<and> format_file_for_prompt py_sample (blob \<lparr> mime_type := ''text/plain'' \<rparr>)
     = nl @ ''[Attached file: blob (text/plain, 1 bytes)]'' @ nl
   \<and> build_prompt_with_files py_sample ''Summarize'' [notes_txt, blob]
     = nl @ ''--- File: notes.txt ---'' @ nl @ ''hello'' @ nl @ ''--- End of notes.txt ---'' @ nl
       @ nl @ nl @ ''[Attached file: blob (application/octet-stream, 1 bytes)]'' @ nl
       @ nl @ ''Summarize''
   \<and> build_prompt_with_files py_sample ''Summarize'' [] = ''Summarize''"
  using prompt_composer_renders_in_order
          [where py = py_sample and f = notes_txt and c = "''hello''"
             and e = "PyException ''UnicodeDecodeError'' ''invalid start byte''"
             and prompt = "''Summarize''" and fs = "[notes_txt, blob]"]
        prompt_composer_renders_in_order
          [where py = py_sample and f = blob and c = "''hello''"
             and e = "PyException ''UnicodeDecodeError'' ''invalid start byte''"
             and prompt = "''Summarize''" and fs = "[]"]
        prompt_composer_renders_in_order
          [where py = py_sample and f = "blob \<lparr> mime_type := ''text/plain'' \<rparr>" and c = "''hello''"
             and e = "PyException ''UnicodeDecodeError'' ''invalid start byte''"
             and prompt = "''Summarize''" and fs = "[]"]
  by (simp add: sample_defs textual_def file_block_def metadata_line_def str_int_def
        str_nat.simps nl_def)

subsection \<open>Result Formatter\<close>

lemma append_texts_eq: "append_texts items acc = acc @ item_texts items"
proof (induction items arbitrary: acc)
  case Nil
  show ?case by (simp add: item_texts_def)
next
  case (Cons item items)
  show ?case
    by (cases "item_text item")
       (simp_all add: Cons.IH item_texts_def)
qed

lemma strip_split:
  "\<exists>pre post. s = pre @ strip s @ post
     \<and> (\<forall>c \<in> set pre. isspace c) \<and> (\<forall>c \<in> set post. isspace c)"
proof -
  let ?t = "dropWhile isspace s"
  have 1: "s = takeWhile isspace s @ ?t" by simp
  have 2: "?t = strip s @ rev (takeWhile isspace (rev ?t))"
    unfolding strip_def by (metis rev_append rev_rev_ident takeWhile_dropWhile_id)
  have 3: "\<forall>c \<in> set (takeWhile isspace s). isspace c"
    by (auto dest: set_takeWhileD)
  have 4: "\<forall>c \<in> set (rev (takeWhile isspace (rev ?t))). isspace c"
    by (auto dest: set_takeWhileD)
  from 1 2 have "s = takeWhile isspace s @ strip s @ rev (takeWhile isspace (rev ?t))"
    by metis
  with 3 4 show ?thesis by blast
qed

lemma strip_trimmed:
  assumes "strip s \<noteq> []"
  shows "\<not> isspace (hd (strip s)) \<and> \<not> isspace (last (strip s))"
proof -
  let ?t = "dropWhile isspace s"
  let ?u = "dropWhile isspace (rev ?t)"
  from assms have u: "?u \<noteq> []" by (simp add: strip_def)
  then have t: "?t \<noteq> []" by (metis dropWhile.simps(1) rev.simps(1))
  have "last (strip s) = hd ?u" using u by (simp add: strip_def last_rev)
  moreover have "\<not> isspace (hd ?u)" using u by (rule hd_dropWhile)
  moreover have "hd (strip s) = last ?u" using u by (simp add: strip_def hd_rev)
  moreover have "last ?u = last (rev ?t)"
    using u by (metis last_appendR takeWhile_dropWhile_id)
  moreover have "last (rev ?t) = hd ?t" using t by (simp add: last_rev)
  moreover have "\<not> isspace (hd ?t)" using t by (rule hd_dropWhile)
  ultimately show ?thesis by simp
qed

text \<open>
  Claim C8. The output of \<open>format_tool_result\<close> is the structured content as indented
  JSON when there is one (its \<open>str\<close> form when \<open>json.dumps\<close> raises), then the text of
  every content item whose text is present and not empty, joined by newlines and
  trimmed; when that is empty, the output is \<open>str(result)\<close>. A trimmed output neither
  starts nor ends with whitespace, and trimming removes whitespace only. The function
  is total: the one exception it can meet is caught.
\<close>

theorem format_tool_result_priority:
  "format_tool_result py result =
     (let structured_text =
            (case structuredContent result of
               None \<Rightarrow> []
             | Some v \<Rightarrow> [case json_dumps py v of Inr s \<Rightarrow> s | Inl e \<Rightarrow> str_json py v]);
          combined =
            strip (join nl (structured_text
                              @ item_texts (case content result of None \<Rightarrow> [] | Some its \<Rightarrow> its)))
      in if combined = [] then str_result py result else combined)
   \<and> (format_tool_result py result = str_result py result
        \<or> (\<not> isspace (hd (format_tool_result py result))
             \<and> \<not> isspace (last (format_tool_result py result))))
   \<and> (\<exists>pre post. s = pre @ strip s @ post
          \<and> (\<forall>c \<in> set pre. isspace c) \<and> (\<forall>c \<in> set post. isspace c))"
proof (intro conjI)
  show "\<exists>pre post. s = pre @ strip s @ post
          \<and> (\<forall>c \<in> set pre. isspace c) \<and> (\<forall>c \<in> set post. isspace c)"
    by (rule strip_split)
  show eq: "format_tool_result py result =
     (let structured_text =
            (case structuredContent result of
               None \<Rightarrow> []
             | Some v \<Rightarrow> [case json_dumps py v of Inr s \<Rightarrow> s | Inl e \<Rightarrow> str_json py v]);
          combined =
            strip (join nl (structured_text
                              @ item_texts (case content result of None \<Rightarrow> [] | Some its \<Rightarrow> its)))
      in if combined = [] then str_result py result else combined)"
    by (auto simp: format_tool_result_def append_texts_eq Let_def split: option.splits sum.splits)
  show "format_tool_result py result = str_result py result
        \<or> (\<not> isspace (hd (format_tool_result py result))
             \<and> \<not> isspace (last (format_tool_result py result)))"
    unfolding eq Let_def using strip_trimmed by (auto split: if_splits)
qed

theorem format_tool_result_priority_witness:
  "format_tool_result py_sample result_ok = ok_text
   \<and> format_tool_result py_sample result_hello = ''hello''
   \<and> format_tool_result py_sample result_empty = str_result py_sample result_empty
   \<and> format_tool_result py_sample
         \<lparr> structuredContent = Some (JObj [(''ok'', JBool True)]),
           content = Some [\<lparr> item_text = Some ''hello'' \<rparr>, \<lparr> item_text = Some [] \<rparr>,
                           \<lparr> item_text = None \<rparr>, \<lparr> item_text = Some ''bye '' \<rparr>] \<rparr>
       = ok_text @ nl @ ''hello'' @ nl @ ''bye''
   \<and> strip '' hello  '' = ''hello''"
  using format_tool_result_priority [of py_sample result_ok "'' hello  ''"]
        format_tool_result_priority [of py_sample result_hello "'' hello  ''"]
        format_tool_result_priority [of py_sample result_empty "'' hello  ''"]
  by (simp add: format_tool_result_def result_ok_def result_hello_def result_empty_def
        py_sample_def ok_text_def strip_def isspace_def nl_def Let_def)

subsection \<open>Attachment Loader\<close>

text \<open>
  Claim C9, as amended. \<open>load_file\<close> fails with \<open>FileNotFoundError\<close> exactly when the path
  does not exist. When the path exists and its bytes can be read, the result is an
  attachment whose mime type is the one guessed from the path, or
  \<open>application/octet-stream\<close> when there is none, whose size is the length of the bytes
  read and whose data is their base64 text.
\<close>

theorem load_file_not_found_or_attachment:
  "((\<exists>m. load_file py fs p = Inl (FileNotFoundError m)) \<longleftrightarrow> fs p = None)
   \<and> (fs p = None \<longrightarrow> load_file py fs p = Inl (FileNotFoundError (''File not found: '' @ p)))
   \<and> (fs p = Some (Inr c) \<longrightarrow>
        (\<exists>a. load_file py fs p = Inr a
           \<and> mime_type a = (case guess_type py p of
                               None \<Rightarrow> ''application/octet-stream''
                             | Some m \<Rightarrow> m)
           \<and> size_bytes a = int (length c)
           \<and> data a = b64encode py c
           \<and> filename a = path_name py p
           \<and> path a = path_absolute py p))"
  by (auto simp: load_file_def Let_def split: option.splits sum.splits)

theorem load_file_not_found_or_attachment_witness:
  "load_file py_sample fs_sample ''a.json'' = Inr a_json
   \<and> load_file py_sample fs_sample ''blob'' = Inr blob
   \<and> load_file py_sample fs_sample ''notes.txt'' = Inr notes_txt
   \<and> load_file py_sample fs_sample ''missing.json''
       = Inl (FileNotFoundError ''File not found: missing.json'')
   \<and> size_bytes a_json = int (length x1_bytes)"
  using load_file_not_found_or_attachment [of py_sample fs_sample "''a.json''" x1_bytes]
        load_file_not_found_or_attachment [of py_sample fs_sample "''blob''" "[0xFF]"]
        load_file_not_found_or_attachment [of py_sample fs_sample "''missing.json''" "[]"]
  by (simp add: load_file_def fs_sample_def sample_defs)

text \<open>
  The claim as stated fails for a path that exists and is not a readable file: for the
  directory \<open>docs\<close> the result is neither \<open>FileNotFoundError\<close> nor an attachment, it is
  the exception that \<open>open\<close> raises.
\<close>

theorem load_file_directory_counterexample:
  "fs_sample ''docs'' = Some (Inl docs_error)
   \<and> load_file py_sample fs_sample ''docs''
       = Inl (PyException ''IsADirectoryError''
                (''[Errno 21] Is a directory: '' @ [CHR 0x27] @ ''docs'' @ [CHR 0x27]))"
  by (simp add: load_file_def fs_sample_def docs_error_def sample_defs)

subsection \<open>Interactive mode and the used filenames\<close>

lemma maybe_auto_call_tool_used:
  "used_filenames (snd (maybe_auto_call_tool py st)) = used_filenames st
   \<or> (\<exists>payload fname text.
         extract_json_payload py (files st) (used_filenames st) = Some (payload, fname)
       \<and> fst (maybe_auto_call_tool py st) = Inr (Some text)
       \<and> used_filenames (snd (maybe_auto_call_tool py st))
           = map_option (insert fname) (used_filenames st))"
proof (cases rule: maybe_auto_call_tool_cases [of py st])
  case (single payload fname sessions c1 server_name s t)
  obtain res st' where r: "maybe_auto_call_tool py st = (res, st')"
    by (cases "maybe_auto_call_tool py st")
  with single(4) have cs: "call_single_tool py
         (st\<lparr> client :=
               c1\<lparr> requests := requests c1 @ map (\<lambda>ns. ListTools (fst ns)) sessions \<rparr> \<rparr>)
         payload fname (server_name, s, t) = (res, st')"
    by simp
  show ?thesis
  proof (cases "used_filenames st' = used_filenames st")
    case True
    with r show ?thesis by simp
  next
    case False
    then have "used_filenames st' \<noteq> used_filenames
         (st\<lparr> client :=
               c1\<lparr> requests := requests c1 @ map (\<lambda>ns. ListTools (fst ns)) sessions \<rparr> \<rparr>)"
      by simp
    from call_single_tool_used_changed [OF cs this] single(1) r show ?thesis by auto
  qed
qed simp_all

lemma maybe_auto_call_tool_files:
  "files (snd (maybe_auto_call_tool py st)) = files st"
proof (cases rule: maybe_auto_call_tool_cases [of py st])
  case (single payload fname sessions c1 server_name s t)
  obtain res st' where r: "maybe_auto_call_tool py st = (res, st')"
    by (cases "maybe_auto_call_tool py st")
  with single(4) have cs: "call_single_tool py
         (st\<lparr> client :=
               c1\<lparr> requests := requests c1 @ map (\<lambda>ns. ListTools (fst ns)) sessions \<rparr> \<rparr>)
         payload fname (server_name, s, t) = (res, st')"
    by simp
  from call_single_tool_frame [OF cs] r show ?thesis by simp
qed simp_all

lemma free_text_turn_used:
  "auto_pass_used (snd (free_text_turn py agent user_input r)) = auto_pass_used r
   \<or> (\<exists>payload fname text.
         extract_json_payload py (attached_files r) (Some (auto_pass_used r)) = Some (payload, fname)
       \<and> fst (maybe_auto_call_tool py (turn_state r)) = Inr (Some text)
       \<and> auto_pass_used (snd (free_text_turn py agent user_input r))
           = insert fname (auto_pass_used r))"
proof -
  obtain res st where m: "maybe_auto_call_tool py (turn_state r) = (res, st)"
    by (cases "maybe_auto_call_tool py (turn_state r)")
  have u: "auto_pass_used (snd (free_text_turn py agent user_input r))
             = (case used_filenames st of None \<Rightarrow> auto_pass_used r | Some used \<Rightarrow> used)"
    using m
    by (auto simp: free_text_turn_def turn_state_def print_lines_def Let_def
             split: sum.splits option.splits prod.splits)
  from maybe_auto_call_tool_used [of py "turn_state r"] m u show ?thesis
    by (auto simp: turn_state_def)
qed

lemma interactive_step_used:
  "auto_pass_used (snd (interactive_step py fs agent line r)) = auto_pass_used r
   \<or> (\<exists>payload fname text.
         extract_json_payload py (attached_files r) (Some (auto_pass_used r)) = Some (payload, fname)
       \<and> fst (maybe_auto_call_tool py (turn_state r)) = Inr (Some text)
       \<and> auto_pass_used (snd (interactive_step py fs agent line r))
           = insert fname (auto_pass_used r))"
  using free_text_turn_used [of py agent "strip line" r]
  by (auto simp: interactive_step_def print_lines_def Let_def split: sum.splits)

lemma interactive_step_mono:
  "auto_pass_used r \<subseteq> auto_pass_used (snd (interactive_step py fs agent line r))"
  using interactive_step_used [of py fs agent line r] by auto

lemma interactive_mode_mono:
  "auto_pass_used r \<subseteq> auto_pass_used (snd (interactive_mode py fs agent lines r))"
proof (induction lines arbitrary: r)
  case Nil
  show ?case by simp
next
  case (Cons line rest)
  obtain ctl r' where s: "interactive_step py fs agent line r = (ctl, r')"
    by (cases "interactive_step py fs agent line r")
  with interactive_step_mono [of r py fs agent line] have 1: "auto_pass_used r \<subseteq> auto_pass_used r'"
    by simp
  show ?case
  proof (cases ctl)
    case Continue
    with s Cons.IH [of r'] 1 show ?thesis by auto
  next
    case Break
    with s 1 show ?thesis by simp
  next
    case (Raise e)
    with s 1 show ?thesis by simp
  qed
qed

lemma interactive_step_clear:
  "strip line = ''/clear'' \<Longrightarrow>
     interactive_step py fs agent line r =
       (Continue,
        r\<lparr> attached_files := [],
           repl_stdout := repl_stdout r @ [''Cleared all attached files''] \<rparr>)"
  by (simp add: interactive_step_def print_lines_def Let_def lower_def lower_char_def
        startswith_def)

text \<open>
  Claim C2, as amended. The set \<open>auto_pass_used\<close> never shrinks: one iteration of the
  loop, and the whole loop, leave every filename in it. It changes only in a free-text
  turn in which \<open>maybe_auto_call_tool\<close> returned a result, and then by the extracted
  filename. The command \<open>/clear\<close> empties \<open>attached_files\<close> and leaves \<open>auto_pass_used\<close>
  as it is, so a filename that was consumed is never extracted again, whatever is
  cleared and attached afterwards.
\<close>

theorem used_filenames_never_reset:
  "auto_pass_used r \<subseteq> auto_pass_used (snd (interactive_step py fs agent line r))
   \<and> (auto_pass_used (snd (interactive_step py fs agent line r)) \<noteq> auto_pass_used r \<longrightarrow>
        (\<exists>payload fname text.
            extract_json_payload py (attached_files r) (Some (auto_pass_used r))
              = Some (payload, fname)
          \<and> fst (maybe_auto_call_tool py (turn_state r)) = Inr (Some text)
          \<and> auto_pass_used (snd (interactive_step py fs agent line r))
              = insert fname (auto_pass_used r)))
   \<and> (strip line = ''/clear'' \<longrightarrow>
        attached_files (snd (interactive_step py fs agent line r)) = []
        \<and> auto_pass_used (snd (interactive_step py fs agent line r)) = auto_pass_used r)
   \<and> auto_pass_used r \<subseteq> auto_pass_used (snd (interactive_mode py fs agent lines r))
   \<and> (n \<in> auto_pass_used r \<longrightarrow>
        extract_json_payload py
          (attached_files (snd (interactive_mode py fs agent lines r)))
          (Some (auto_pass_used (snd (interactive_mode py fs agent lines r))))
        \<noteq> Some (p, n))"
proof (intro conjI impI)
  show "auto_pass_used r \<subseteq> auto_pass_used (snd (interactive_step py fs agent line r))"
    by (rule interactive_step_mono)
next
  assume "auto_pass_used (snd (interactive_step py fs agent line r)) \<noteq> auto_pass_used r"
  with interactive_step_used [of py fs agent line r]
  show "\<exists>payload fname text.
            extract_json_payload py (attached_files r) (Some (auto_pass_used r))
              = Some (payload, fname)
          \<and> fst (maybe_auto_call_tool py (turn_state r)) = Inr (Some text)
          \<and> auto_pass_used (snd (interactive_step py fs agent line r))
              = insert fname (auto_pass_used r)"
    by blast
next
  assume c: "strip line = ''/clear''"
  from interactive_step_clear [OF c, of py fs agent r]
  show "attached_files (snd (interactive_step py fs agent line r)) = []"
    and "auto_pass_used (snd (interactive_step py fs agent line r)) = auto_pass_used r"
    by simp_all
next
  show "auto_pass_used r \<subseteq> auto_pass_used (snd (interactive_mode py fs agent lines r))"
    by (rule interactive_mode_mono)
next
  assume n: "n \<in> auto_pass_used r"
  show "extract_json_payload py
          (attached_files (snd (interactive_mode py fs agent lines r)))
          (Some (auto_pass_used (snd (interactive_mode py fs agent lines r))))
        \<noteq> Some (p, n)"
  proof
    assume "extract_json_payload py
          (attached_files (snd (interactive_mode py fs agent lines r)))
          (Some (auto_pass_used (snd (interactive_mode py fs agent lines r))))
        = Some (p, n)"
    then have "n \<notin> used_set (Some (auto_pass_used (snd (interactive_mode py fs agent lines r))))"
      by (rule extract_json_payload_unused)
    with n interactive_mode_mono [of r py fs agent lines] show False
      by (auto simp: used_set_def)
  qed
qed

lemmas repl_defs =
  interactive_step_def free_text_turn_def turn_state_def print_lines_def repl_of_def
  agent_sample_def load_file_def fs_sample_def file_summary_def build_prompt_with_files_def
  lower_def lower_char_def str_int_def str_nat.simps

text \<open>
  The claim as stated fails: after \<open>/attach a.json\<close>, a turn that calls the single tool
  and \<open>/clear\<close>, the set still holds \<open>a.json\<close>; after attaching the file again, the
  extractor finds no payload.
\<close>

theorem used_filenames_reset_counterexample:
  "auto_pass_used (snd (interactive_mode py_sample fs_sample agent_sample
      [''/attach a.json'', ''process it'', ''/clear'']
      (repl_of [(''s1'', session_of [tool_object])]))) = {''a.json''}
   \<and> attached_files (snd (interactive_mode py_sample fs_sample agent_sample
      [''/attach a.json'', ''process it'', ''/clear'']
      (repl_of [(''s1'', session_of [tool_object])]))) = []
   \<and> attached_files (snd (interactive_mode py_sample fs_sample agent_sample
      [''/attach a.json'', ''process it'', ''/clear'', ''/attach a.json'']
      (repl_of [(''s1'', session_of [tool_object])]))) = [a_json]
   \<and> extract_json_payload py_sample
        (attached_files (snd (interactive_mode py_sample fs_sample agent_sample
           [''/attach a.json'', ''process it'', ''/clear'', ''/attach a.json'']
           (repl_of [(''s1'', session_of [tool_object])]))))
        (Some (auto_pass_used (snd (interactive_mode py_sample fs_sample agent_sample
           [''/attach a.json'', ''process it'', ''/clear'', ''/attach a.json'']
           (repl_of [(''s1'', session_of [tool_object])]))))) = None"
  by (simp add: repl_defs orchestrator_defs sample_defs call_single_tool.simps)

theorem used_filenames_never_reset_witness:
  "auto_pass_used (snd (interactive_step py_sample fs_sample agent_sample ''process it''
      ((repl_of [(''s1'', session_of [tool_object])]) \<lparr> attached_files := [a_json] \<rparr>)))
     = {''a.json''}
   \<and> fst (maybe_auto_call_tool py_sample
        (turn_state ((repl_of [(''s1'', session_of [tool_object])])
                       \<lparr> attached_files := [a_json] \<rparr>)))
     = Inr (Some ok_text)
   \<and> strip '' /clear '' = ''/clear''
   \<and> interactive_step py_sample fs_sample agent_sample '' /clear ''
        ((repl_of [(''s1'', session_of [tool_object])])
           \<lparr> attached_files := [a_json], auto_pass_used := {''a.json''} \<rparr>)
     = (Continue,
        (repl_of [(''s1'', session_of [tool_object])])
          \<lparr> attached_files := [], auto_pass_used := {''a.json''},
            repl_stdout := [''Cleared all attached files''] \<rparr>)
   \<and> auto_pass_used (snd (interactive_mode py_sample fs_sample agent_sample
        [''/clear'', ''/attach a.json'', ''process it'']
        ((repl_of [(''s1'', session_of [tool_object])])
           \<lparr> attached_files := [a_json], auto_pass_used := {''a.json''} \<rparr>)))
     = {''a.json''}
   \<and> repl_stdout (snd (interactive_mode py_sample fs_sample agent_sample
        [''/clear'', ''/attach a.json'', ''process it'']
        ((repl_of [(''s1'', session_of [tool_object])])
           \<lparr> attached_files := [a_json], auto_pass_used := {''a.json''} \<rparr>)))
     = [''Cleared all attached files'', ''Attached: a.json (application/json, 7 bytes)'',
        nl @ ''Agent: '', ''answer'']"
  using used_filenames_never_reset
          [where py = py_sample and fs = fs_sample and agent = agent_sample
             and line = "''process it''"
             and r = "(repl_of [(''s1'', session_of [tool_object])]) \<lparr> attached_files := [a_json] \<rparr>"
             and lines = "[]" and n = "''b.json''" and p = JNull]
        used_filenames_never_reset
          [where py = py_sample and fs = fs_sample and agent = agent_sample
             and line = "'' /clear ''"
             and r = "(repl_of [(''s1'', session_of [tool_object])])
                        \<lparr> attached_files := [a_json], auto_pass_used := {''a.json''} \<rparr>"
             and lines = "[''/clear'', ''/attach a.json'', ''process it'']"
             and n = "''a.json''" and p = "JObj [(''x'', JInt 1)]"]
  by (simp add: repl_defs orchestrator_defs sample_defs call_single_tool.simps)

end
